theory Spec2Isabelle
  imports Main "HOL-Library.Sublist" "HOL-Library.Multiset"
begin

section \<open>Strings, numbers and JSON text\<close>

text \<open>
  Strings are byte lists (UTF-8).  The source only concatenates, compares and joins them;
  the one length check (the server name) is paired with a pattern that admits ASCII only,
  so bytes and UTF-16 code units agree wherever the check can pass.
\<close>

definition NL :: string where
  "NL = [CHR 0x0A]"

text \<open>\<^verbatim>\<open>Array.prototype.join\<close> on an array of strings.\<close>

fun join :: "string \<Rightarrow> string list \<Rightarrow> string" where
  "join sep [] = []"
| "join sep [x] = x"
| "join sep (x # y # ys) = x @ sep @ join sep (y # ys)"

definition digit_char :: "nat \<Rightarrow> char" where
  "digit_char n = ''0123456789'' ! n"

fun show_nat :: "nat \<Rightarrow> string" where
  "show_nat n = (if n < 10 then [digit_char n] else show_nat (n div 10) @ [digit_char (n mod 10)])"

declare show_nat.simps [simp del]

subsection \<open>\<^verbatim>\<open>Number::toString\<close> on integers\<close>

text \<open>
  An integer stands for the JavaScript number of that value, so only integers that are
  doubles occur.  Below \<open>10\<^sup>2\<^sup>1\<close> such a number prints in plain decimal.  From
  \<open>10\<^sup>2\<^sup>1\<close> on it prints in exponent form with the fewest digits that still
  read back as the same double (ECMA-262, \<^verbatim>\<open>Number::toString\<close>): \<open>round_to_double\<close> is
  reading back (round to nearest, ties to even, 53 bits; all values here are below
  \<open>2\<^sup>1\<^sup>0\<^sup>2\<^sup>4\<close>), \<open>nearest x p\<close> looks among the two multiples of \<open>p\<close> around
  \<open>x\<close> for one that reads back as \<open>x\<close>, the closer one first, and \<open>shortest\<close> takes
  the first hit going from one digit up.
\<close>

fun bitlen :: "nat \<Rightarrow> nat" where
  "bitlen n = (if n = 0 then 0 else Suc (bitlen (n div 2)))"

declare bitlen.simps [simp del]

definition round_to_double :: "nat \<Rightarrow> nat" where
  "round_to_double y =
     (let b = bitlen y in
      if b \<le> 53 then y
      else (let u = 2 ^ (b - 53); q = y div u; r = y mod u
            in if 2 * r < u \<or> (2 * r = u \<and> even q) then q * u else (q + 1) * u))"

definition nearest :: "nat \<Rightarrow> nat \<Rightarrow> nat option" where
  "nearest x p =
     (let v0 = (x div p) * p; v1 = v0 + p;
          ok0 = (round_to_double v0 = x); ok1 = (round_to_double v1 = x)
      in if ok0 \<and> ok1 then
           (if x - v0 < v1 - x then Some v0
            else if v1 - x < x - v0 then Some v1
            else if even (x div p) then Some v0 else Some v1)
         else if ok0 then Some v0
         else if ok1 then Some v1
         else None)"

definition shortest :: "nat \<Rightarrow> nat" where
  "shortest x =
     (let n = length (show_nat x)
      in case List.map_filter (\<lambda>k. nearest x (10 ^ (n - k))) [1..<Suc n] of
           v # _ \<Rightarrow> v
         | [] \<Rightarrow> x)"

definition exponent_form :: "nat \<Rightarrow> string" where
  "exponent_form v =
     (let d = show_nat v; m = rev (dropWhile (\<lambda>c. c = CHR ''0'') (rev d))
      in (case m of
            [] \<Rightarrow> []
          | c # cs \<Rightarrow> [c] @ (if cs = [] then [] else ''.'' @ cs))
         @ ''e+'' @ show_nat (length d - 1))"

definition show_magnitude :: "nat \<Rightarrow> string" where
  "show_magnitude n = (if n < 10 ^ 21 then show_nat n else exponent_form (shortest n))"

definition show_int :: "int \<Rightarrow> string" where
  "show_int i = (if i < 0 then ''-'' @ show_magnitude (nat (- i)) else show_magnitude (nat i))"

text \<open>
  A JavaScript \<^verbatim>\<open>number\<close> is only ever printed by this program, never computed with.
  An integral value is kept as an integer; any other value is carried as the text that
  \<^verbatim>\<open>Number::toString\<close> gives for it.
\<close>

datatype number = IntNum int | TextNum string

fun show_number :: "number \<Rightarrow> string" where
  "show_number (IntNum i) = show_int i"
| "show_number (TextNum s) = s"

subsection \<open>JSON values\<close>

text \<open>
  A value as \<^verbatim>\<open>JSON.parse\<close> builds it.  An object is the list of its members in the order
  \<^verbatim>\<open>Object.keys\<close>, \<^verbatim>\<open>Object.entries\<close> and \<^verbatim>\<open>JSON.stringify\<close> enumerate them; member names
  are distinct.
\<close>

datatype json =
    JNull
  | JBool bool
  | JNumber number
  | JString string
  | JArray "json list"
  | JObject "(string \<times> json) list"

definition hex_char :: "nat \<Rightarrow> char" where
  "hex_char n = ''0123456789abcdef'' ! n"

text \<open>\<^verbatim>\<open>QuoteJSONString\<close> of ECMA-262, on one character and on a string.\<close>

definition quote_char :: "char \<Rightarrow> string" where
  "quote_char c =
     (let n = (of_char c :: nat) in
      if n = 0x08 then [CHR 0x5C, CHR ''b'']
      else if n = 0x09 then [CHR 0x5C, CHR ''t'']
      else if n = 0x0A then [CHR 0x5C, CHR ''n'']
      else if n = 0x0C then [CHR 0x5C, CHR ''f'']
      else if n = 0x0D then [CHR 0x5C, CHR ''r'']
      else if n = 0x22 then [CHR 0x5C, CHR 0x22]
      else if n = 0x5C then [CHR 0x5C, CHR 0x5C]
      else if n < 0x20 then [CHR 0x5C, CHR ''u'', CHR ''0'', CHR ''0'', hex_char (n div 16), hex_char (n mod 16)]
      else [c])"

definition QuoteJSONString :: "string \<Rightarrow> string" where
  "QuoteJSONString s = [CHR 0x22] @ concat (map quote_char s) @ [CHR 0x22]"

text \<open>
  \<^verbatim>\<open>JSON.stringify(value, null, 2)\<close>: the first argument of \<open>stringify\<close> is the
  current indentation, the gap is two spaces.
\<close>

fun stringify :: "string \<Rightarrow> json \<Rightarrow> string" where
  "stringify ind JNull = ''null''"
| "stringify ind (JBool b) = (if b then ''true'' else ''false'')"
| "stringify ind (JNumber n) = show_number n"
| "stringify ind (JString s) = QuoteJSONString s"
| "stringify ind (JArray xs) =
     (if xs = [] then ''[]''
      else ''['' @ NL @ (ind @ ''  '')
           @ join ('','' @ NL @ (ind @ ''  '')) (map (stringify (ind @ ''  '')) xs)
           @ NL @ ind @ '']'')"
| "stringify ind (JObject kvs) =
     (if kvs = [] then ''{}''
      else ''{'' @ NL @ (ind @ ''  '')
           @ join ('','' @ NL @ (ind @ ''  ''))
               (map (\<lambda>kv. QuoteJSONString (fst kv) @ '': '' @ stringify (ind @ ''  '') (snd kv)) kvs)
           @ NL @ ind @ ''}'')"

definition JSON_stringify :: "json \<Rightarrow> string" where
  "JSON_stringify v = stringify [] v"

subsection \<open>What JavaScript does with a value it did not expect\<close>

text \<open>
  The type assertions of the source are erased at run time, so where the program reads a
  member of a response body or puts a value into a template literal, the value may be any
  JSON value.  Three operations are needed.

  \<^item> \<open>own_member v k\<close> is \<^verbatim>\<open>v?.k\<close> for the member names \<open>error\<close> and \<open>message\<close>,
    which no prototype of a parsed value offers: an object gives its own member, anything else
    gives \<^verbatim>\<open>undefined\<close> (\<open>None\<close>).
  \<^item> \<open>truthy_json\<close> is the test \<^verbatim>\<open>x || ...\<close> makes.
  \<^item> \<open>ToString_json\<close> is the conversion a template literal applies; \<open>None\<close> says it
    throws a \<^verbatim>\<open>TypeError\<close>.  An array joins the conversions of its elements with commas,
    \<^verbatim>\<open>null\<close> counting as empty.  An object prints as \<open>[object Object]\<close> through
    \<^verbatim>\<open>Object.prototype.toString\<close>, unless it has a member of its own named \<open>toString\<close>:
    a parsed member is never callable, \<^verbatim>\<open>valueOf\<close> (own or inherited) gives no primitive
    either, and the conversion throws.
\<close>

fun own_member :: "json \<Rightarrow> string \<Rightarrow> json option" where
  "own_member (JObject kvs) k = map_of kvs k"
| "own_member v k = None"

fun truthy_json :: "json \<Rightarrow> bool" where
  "truthy_json JNull = False"
| "truthy_json (JBool b) = b"
| "truthy_json (JNumber n) = (n \<noteq> IntNum 0)"
| "truthy_json (JString s) = (s \<noteq> [])"
| "truthy_json (JArray xs) = True"
| "truthy_json (JObject kvs) = True"

fun ToString_json :: "json \<Rightarrow> string option" where
  "ToString_json JNull = Some ''null''"
| "ToString_json (JBool b) = Some (if b then ''true'' else ''false'')"
| "ToString_json (JNumber n) = Some (show_number n)"
| "ToString_json (JString s) = Some s"
| "ToString_json (JArray xs) =
     map_option (join '','') (those (map (\<lambda>x. if x = JNull then Some [] else ToString_json x) xs))"
| "ToString_json (JObject kvs) =
     (if ''toString'' \<in> fst ` set kvs then None else Some ''[object Object]'')"

text \<open>
  A value found in the \<^verbatim>\<open>message\<close> member of a thrown error: anything JSON can express,
  \<^verbatim>\<open>undefined\<close>, or a symbol (which no conversion to a string accepts).  \<open>ToString\<close>
  gives the text or the message of the \<^verbatim>\<open>TypeError\<close> thrown instead, as V8 words it.
\<close>

datatype js_value = JsUndefined | JsSymbol | JsJson json

abbreviation JsStr :: "string \<Rightarrow> js_value" where
  "JsStr s \<equiv> JsJson (JString s)"

fun truthy :: "js_value \<Rightarrow> bool" where
  "truthy JsUndefined = False"
| "truthy JsSymbol = True"
| "truthy (JsJson v) = truthy_json v"

fun ToString :: "js_value \<Rightarrow> string + string" where
  "ToString JsUndefined = Inr ''undefined''"
| "ToString JsSymbol = Inl ''Cannot convert a Symbol value to a string''"
| "ToString (JsJson v) =
     (case ToString_json v of
        None \<Rightarrow> Inl ''Cannot convert object to primitive value''
      | Some s \<Rightarrow> Inr s)"

section \<open>The transport client: \<^verbatim>\<open>api.ts\<close>\<close>

definition API_BASE_URL :: string where
  "API_BASE_URL = ''https://api.hetzner.cloud/v1''"

record AxiosInstance =
  baseURL :: string
  timeout :: nat
  headers :: "(string \<times> string) list"

datatype http_method = GET | POST | PUT | DELETE

record request =
  url :: string
  http_verb :: http_method  \<comment> \<open>the \<^verbatim>\<open>method\<close> member\<close>
  data :: "json option"
  params :: "(string \<times> string) list option"

text \<open>
  The response an \<^verbatim>\<open>AxiosError\<close> carries: the status and the body.  The source asserts the
  body to be \<^verbatim>\<open>HetznerAPIError | undefined\<close>; at run time it is whatever the other side
  sent, parsed, or \<^verbatim>\<open>undefined\<close> (\<open>None\<close>).
\<close>

record axios_response =
  status :: int
  response_data :: "json option"

text \<open>
  A thrown value: an \<^verbatim>\<open>AxiosError\<close> (with its optional response, optional code and
  message), any other \<^verbatim>\<open>Error\<close> (with its message), or a value that is no \<^verbatim>\<open>Error\<close>.
  Errors made by axios, by the engine and by this program have a string for a message; the
  type allows the rest as well.
\<close>

datatype thrown =
    AxiosError "axios_response option" "string option" js_value
  | PlainError js_value
  | NonError

definition TypeError :: "string \<Rightarrow> thrown" where
  \<comment> \<open>a \<^verbatim>\<open>TypeError\<close> is an \<^verbatim>\<open>Error\<close> and no \<^verbatim>\<open>AxiosError\<close>\<close>
  "TypeError msg = PlainError (JsStr msg)"

text \<open>
  The process state the module touches: the environment variable, the module-level
  \<^verbatim>\<open>apiClient\<close>, and (for the statements about what goes over the wire) the requests
  handed to the client so far.
\<close>

record world =
  env_HETZNER_API_TOKEN :: "string option"
  apiClient :: "AxiosInstance option"
  sent :: "request list"

definition axios_create :: "string \<Rightarrow> AxiosInstance" where
  "axios_create token =
     \<lparr> baseURL = API_BASE_URL,
       timeout = 30000,
       headers = [(''Authorization'', ''Bearer '' @ token),
                  (''Content-Type'', ''application/json''),
                  (''Accept'', ''application/json'')] \<rparr>"

definition getApiClient :: "world \<Rightarrow> (thrown + AxiosInstance) \<times> world" where
  "getApiClient w =
     (case apiClient w of
        Some c \<Rightarrow> (Inr c, w)
      | None \<Rightarrow>
         (case env_HETZNER_API_TOKEN w of
            None \<Rightarrow> (Inl (PlainError (JsStr ''HETZNER_API_TOKEN environment variable is required'')), w)
          | Some token \<Rightarrow>
             if token = []
             then (Inl (PlainError (JsStr ''HETZNER_API_TOKEN environment variable is required'')), w)
             else (Inr (axios_create token), w\<lparr>apiClient := Some (axios_create token)\<rparr>)))"

text \<open>
  \<^verbatim>\<open>makeApiRequest<T>\<close>.  The network is the parameter \<open>http\<close>: what
  \<^verbatim>\<open>client.request\<close> answers for a request, either a thrown value or the decoded body,
  typed \<open>'a\<close> as the source's type argument asserts.
\<close>

definition makeApiRequest ::
  "(AxiosInstance \<Rightarrow> request \<Rightarrow> thrown + 'a) \<Rightarrow> world \<Rightarrow> request \<Rightarrow> (thrown + 'a) \<times> world" where
  "makeApiRequest http w req =
     (case getApiClient w of
        (Inl e, w') \<Rightarrow> (Inl e, w')
      | (Inr client, w') \<Rightarrow> (http client req, w'\<lparr>sent := sent w' @ [req]\<rparr>))"

subsection \<open>\<^verbatim>\<open>handleApiError\<close>\<close>

definition hetznerError_message :: "json option \<Rightarrow> json option" where
  \<comment> \<open>\<^verbatim>\<open>data?.error?.message\<close>\<close>
  "hetznerError_message d =
     (case d of
        None \<Rightarrow> None
      | Some b \<Rightarrow> (case own_member b ''error'' of None \<Rightarrow> None | Some h \<Rightarrow> own_member h ''message''))"

definition detail_or :: "json option \<Rightarrow> js_value \<Rightarrow> js_value" where
  \<comment> \<open>\<^verbatim>\<open>hetznerError?.message || fallback\<close>\<close>
  "detail_or d fallback =
     (case hetznerError_message d of
        None \<Rightarrow> fallback
      | Some v \<Rightarrow> if truthy_json v then JsJson v else fallback)"

definition template :: "string \<Rightarrow> js_value \<Rightarrow> thrown + string" where
  \<comment> \<open>a template literal that ends with one interpolated value: the text, or the
      \<^verbatim>\<open>TypeError\<close> of the conversion\<close>
  "template text v = (case ToString v of Inl msg \<Rightarrow> Inl (TypeError msg) | Inr s \<Rightarrow> Inr (text @ s))"

definition apostrophe :: string where
  "apostrophe = [CHR 0x27]"

text \<open>
  The function returns a string or throws: \<open>Inr\<close> the message, \<open>Inl\<close> what a template
  literal threw when the value put into it could not be converted.
\<close>

definition handleApiError :: "thrown \<Rightarrow> thrown + string" where
  "handleApiError err =
     (case err of
        AxiosError (Some r) c msg \<Rightarrow>
          (if status r = 401 then Inr ''Error: Authentication failed. Please check your HETZNER_API_TOKEN.''
           else if status r = 403 then
             template ''Error: Permission denied. ''
               (detail_or (response_data r) (JsStr (''You don'' @ apostrophe @ ''t have access to this resource.'')))
           else if status r = 404 then
             template ''Error: Resource not found. ''
               (detail_or (response_data r) (JsStr ''Please check the ID is correct.''))
           else if status r = 409 then
             template ''Error: Conflict. ''
               (detail_or (response_data r) (JsStr ''The resource is in a conflicting state.''))
           else if status r = 422 then
             template ''Error: Invalid request. ''
               (detail_or (response_data r) (JsStr ''Please check your parameters.''))
           else if status r = 429 then
             Inr ''Error: Rate limit exceeded. Please wait a moment before making more requests.''
           else if status r = 503 then
             Inr ''Error: Hetzner API is temporarily unavailable. Please try again later.''
           else template (''Error: API request failed ('' @ show_int (status r) @ ''). '')
                  (detail_or (response_data r) msg))
      | AxiosError None c msg \<Rightarrow>
          (if c = Some ''ECONNABORTED'' then Inr ''Error: Request timed out. Please try again.''
           else if c = Some ''ENOTFOUND'' then
             Inr ''Error: Could not connect to Hetzner API. Please check your internet connection.''
           else template ''Error: '' msg)
      | PlainError msg \<Rightarrow> template ''Error: '' msg
      | NonError \<Rightarrow> Inr ''Error: An unexpected error occurred.'')"

section \<open>The entities of \<^verbatim>\<open>types.ts\<close>\<close>

text \<open>
  One record per interface, fields in declaration order.  Field names carry a prefix,
  since many interfaces share \<^verbatim>\<open>id\<close>, \<^verbatim>\<open>name\<close> and \<^verbatim>\<open>description\<close>.  A field
  \<^verbatim>\<open>T | null\<close> is an option.  A label object is the list of its entries in the order
  \<^verbatim>\<open>Object.keys\<close>, \<^verbatim>\<open>Object.entries\<close> and \<^verbatim>\<open>JSON.stringify\<close> enumerate them.

  An entity the provider sent is an object that may have more members than the interface
  declares, in the provider's order.  The narrative formatters read the declared members;
  \<^verbatim>\<open>JSON.stringify\<close> prints the object as it was received.  So each entity record ends with
  a field \<open>..._raw\<close>, the received object, of which the other fields are the declared
  members.
\<close>

datatype ResponseFormat = MARKDOWN | JSON

datatype server_status =
  Running | Initializing | Starting | Stopping | Off | Deleting | Rebuilding | Migrating | Unknown

fun server_status_text :: "server_status \<Rightarrow> string" where
  "server_status_text Running = ''running''"
| "server_status_text Initializing = ''initializing''"
| "server_status_text Starting = ''starting''"
| "server_status_text Stopping = ''stopping''"
| "server_status_text Off = ''off''"
| "server_status_text Deleting = ''deleting''"
| "server_status_text Rebuilding = ''rebuilding''"
| "server_status_text Migrating = ''migrating''"
| "server_status_text Unknown = ''unknown''"

record public_net =
  ipv4 :: "string option"  \<comment> \<open>\<open>Some a\<close> is \<^verbatim>\<open>{ip: a}\<close>, \<open>None\<close> is \<^verbatim>\<open>null\<close>\<close>
  ipv6 :: "string option"

record server_type_info =
  sti_id :: number
  sti_name :: string
  sti_description :: string
  sti_cores :: number
  sti_memory :: number
  sti_disk :: number

record location_info =
  li_id :: number
  li_name :: string
  li_city :: string
  li_country :: string

record datacenter_info =
  dc_id :: number
  dc_name :: string
  dc_description :: string
  dc_location :: location_info

record image_info =
  ii_id :: number
  ii_name :: string
  ii_description :: string
  ii_os_flavor :: string
  ii_os_version :: string

record HetznerServer =
  srv_id :: number
  srv_name :: string
  srv_status :: server_status
  srv_public_net :: public_net
  srv_server_type :: server_type_info
  srv_datacenter :: datacenter_info
  srv_image :: "image_info option"
  srv_labels :: "(string \<times> string) list"
  srv_created :: string
  srv_raw :: json

record price_pair =
  net :: string
  gross :: string

record price_info =
  pr_location :: string
  price_hourly :: price_pair
  price_monthly :: price_pair

record HetznerServerType =
  st_id :: number
  st_name :: string
  st_description :: string
  st_cores :: number
  st_memory :: number
  st_disk :: number
  st_prices :: "price_info list"
  st_architecture :: string
  st_cpu_type :: string
  st_raw :: json

datatype image_type = System | Snapshot | Backup | App

fun image_type_text :: "image_type \<Rightarrow> string" where
  "image_type_text System = ''system''"
| "image_type_text Snapshot = ''snapshot''"
| "image_type_text Backup = ''backup''"
| "image_type_text App = ''app''"

datatype image_status = Available | Creating | Unavailable

fun image_status_text :: "image_status \<Rightarrow> string" where
  "image_status_text Available = ''available''"
| "image_status_text Creating = ''creating''"
| "image_status_text Unavailable = ''unavailable''"

record HetznerImage =
  img_id :: number
  img_name :: string
  img_description :: string
  img_os_flavor :: string
  img_os_version :: string
  img_type :: image_type
  img_status :: image_status
  img_architecture :: string
  img_raw :: json

record HetznerLocation =
  loc_id :: number
  loc_name :: string
  loc_description :: string
  loc_country :: string
  loc_city :: string
  loc_latitude :: number
  loc_longitude :: number
  loc_network_zone :: string
  loc_raw :: json

record HetznerSSHKey =
  key_id :: number
  key_name :: string
  key_fingerprint :: string
  key_public_key :: string
  key_labels :: "(string \<times> string) list"
  key_created :: string
  key_raw :: json

datatype action_status = ActionRunning | ActionSuccess | ActionError

fun action_status_text :: "action_status \<Rightarrow> string" where
  "action_status_text ActionRunning = ''running''"
| "action_status_text ActionSuccess = ''success''"
| "action_status_text ActionError = ''error''"

record hetzner_error =
  code :: string
  message :: string

record HetznerAction =
  act_id :: number
  act_command :: string
  act_status :: action_status
  act_progress :: number
  act_started :: string
  act_finished :: "string option"
  act_error :: "hetzner_error option"

record CreateServerResponse =
  csr_server :: HetznerServer
  csr_action :: HetznerAction
  csr_root_password :: "string option"

subsection \<open>Values the program itself turns into JSON\<close>

definition json_opt :: "('a \<Rightarrow> json) \<Rightarrow> 'a option \<Rightarrow> json" where
  \<comment> \<open>a member typed \<^verbatim>\<open>T | null\<close>\<close>
  "json_opt f x = (case x of None \<Rightarrow> JNull | Some v \<Rightarrow> f v)"

definition json_labels :: "(string \<times> string) list \<Rightarrow> json" where
  \<comment> \<open>the \<^verbatim>\<open>labels\<close> parameter, a record of strings\<close>
  "json_labels ls = JObject (map (\<lambda>kv. (fst kv, JString (snd kv))) ls)"

section \<open>Tool results and the operation boundary\<close>

datatype content_item = TextContent string

record tool_result =
  content :: "content_item list"
  isError :: bool  \<comment> \<open>absent on the success path of the source, read as false\<close>

definition text_result :: "string \<Rightarrow> tool_result" where
  "text_result t = \<lparr> content = [TextContent t], isError = False \<rparr>"

definition error_result :: "string \<Rightarrow> tool_result" where
  "error_result t = \<lparr> content = [TextContent t], isError = True \<rparr>"

text \<open>
  A handler is an \<^verbatim>\<open>async\<close> function: it settles with a thrown value (\<open>Inl\<close>) or a
  result (\<open>Inr\<close>), and leaves a new process state.  \<open>and_then\<close> is the code after an
  \<^verbatim>\<open>await makeApiRequest(...)\<close> inside a \<^verbatim>\<open>try\<close> block; \<open>try_catch\<close> is the
  \<^verbatim>\<open>catch (error)\<close> clause every handler ends with: it calls \<open>handleApiError\<close>
  with nothing around the call, so what that function throws is what the handler settles
  with.  Each handler below comes as its
  \<^verbatim>\<open>try\<close> block (\<open>..._try\<close>) and the handler proper, which puts the \<^verbatim>\<open>catch\<close> clause
  around it.  A response wrapper with a single field (\<^verbatim>\<open>{servers: ...}\<close>,
  \<^verbatim>\<open>{action: ...}\<close>) is identified with that field.
\<close>

definition and_then ::
  "(thrown + 'a) \<times> world \<Rightarrow> ('a \<Rightarrow> thrown + tool_result) \<Rightarrow> (thrown + tool_result) \<times> world" where
  "and_then r f = (case r of (Inl e, w) \<Rightarrow> (Inl e, w) | (Inr d, w) \<Rightarrow> (f d, w))"

definition try_catch :: "(thrown + tool_result) \<times> world \<Rightarrow> (thrown + tool_result) \<times> world" where
  "try_catch r =
     (case r of
        (Inl e, w) \<Rightarrow>
          (case handleApiError e of
             Inl thrown_again \<Rightarrow> (Inl thrown_again, w)
           | Inr t \<Rightarrow> (Inr (error_result t), w))
      | (Inr x, w) \<Rightarrow> (Inr x, w))"

section \<open>Server tools: \<^verbatim>\<open>tools/servers.ts\<close>\<close>

text \<open>
  Two things the engine does are taken as given, in the parameter \<open>L\<close> of every formatter:
  \<^verbatim>\<open>new Date(s).toLocaleString()\<close>, which depends on the locale and time zone of the
  process, and \<^verbatim>\<open>s.charAt(0).toUpperCase() + s.slice(1)\<close> for a string that does not start
  with an ASCII character, which depends on the Unicode tables of the engine.
\<close>

record engine =
  toLocaleString :: "string \<Rightarrow> string"
  toUpperCase_first :: "string \<Rightarrow> string"

definition or_else :: "string option \<Rightarrow> string \<Rightarrow> string" where
  \<comment> \<open>\<^verbatim>\<open>x || fallback\<close> for an optional string: undefined and the empty string are falsy\<close>
  "or_else x fallback = (case x of None \<Rightarrow> fallback | Some s \<Rightarrow> if s = [] then fallback else s)"

definition format_labels :: "(string \<times> string) list \<Rightarrow> string" where
  "format_labels ls = ''- **Labels**: '' @ join '', '' (map (\<lambda>kv. fst kv @ ''='' @ snd kv) ls)"

definition formatServer_lines :: "engine \<Rightarrow> HetznerServer \<Rightarrow> string list" where
  "formatServer_lines L server =
     (let ipv4_text = or_else (ipv4 (srv_public_net server)) ''N/A'';
          ipv6_text = or_else (ipv6 (srv_public_net server)) ''N/A''
      in [''## '' @ srv_name server @ '' (ID: '' @ show_number (srv_id server) @ '')'',
          ''- **Status**: '' @ server_status_text (srv_status server),
          ''- **IPv4**: '' @ ipv4_text,
          ''- **IPv6**: '' @ ipv6_text,
          ''- **Type**: '' @ sti_name (srv_server_type server)
             @ '' ('' @ show_number (sti_cores (srv_server_type server)) @ '' cores, ''
             @ show_number (sti_memory (srv_server_type server)) @ ''GB RAM, ''
             @ show_number (sti_disk (srv_server_type server)) @ ''GB disk)'',
          ''- **Location**: '' @ li_city (dc_location (srv_datacenter server)) @ '', ''
             @ li_country (dc_location (srv_datacenter server))
             @ '' ('' @ dc_name (srv_datacenter server) @ '')'']
         @ (case srv_image server of
              Some img \<Rightarrow>
                [''- **Image**: '' @ ii_name img
                   @ '' ('' @ ii_os_flavor img @ '' '' @ ii_os_version img @ '')'']
            | None \<Rightarrow> [])
         @ [''- **Created**: '' @ toLocaleString L (srv_created server)]
         @ (if length (map fst (srv_labels server)) > 0 then [format_labels (srv_labels server)] else []))"

definition formatServer :: "engine \<Rightarrow> HetznerServer \<Rightarrow> string" where
  "formatServer L server = join NL (formatServer_lines L server)"

subsection \<open>\<^verbatim>\<open>hetzner_list_servers\<close>\<close>

record list_servers_params =
  label_selector :: "string option"
  ls_response_format :: ResponseFormat

definition list_servers_request :: "list_servers_params \<Rightarrow> request" where
  "list_servers_request p =
     \<lparr> url = ''/servers'', http_verb = GET, data = None,
       params = Some (case label_selector p of
                        Some sel \<Rightarrow> if sel \<noteq> [] then [(''label_selector'', sel)] else []
                      | None \<Rightarrow> []) \<rparr>"

definition list_servers_output :: "engine \<Rightarrow> ResponseFormat \<Rightarrow> HetznerServer list \<Rightarrow> tool_result" where
  "list_servers_output L fmt servers =
     (if fmt = JSON then text_result (JSON_stringify (JArray (map srv_raw servers)))
      else if length servers = 0 then
        text_result ''No servers found. Use `hetzner_create_server` to create one.''
      else text_result (join NL
             ([''# Servers'', [], ''Found '' @ show_nat (length servers) @ '' server(s):'', []]
              @ concat (map (\<lambda>srv. [formatServer L srv, []]) servers))))"

definition list_servers_try ::
  "engine \<Rightarrow> (AxiosInstance \<Rightarrow> request \<Rightarrow> thrown + HetznerServer list)
     \<Rightarrow> world \<Rightarrow> list_servers_params \<Rightarrow> (thrown + tool_result) \<times> world" where
  "list_servers_try L http w p =
     and_then (makeApiRequest http w (list_servers_request p))
       (\<lambda>servers. Inr (list_servers_output L (ls_response_format p) servers))"

definition hetzner_list_servers ::
  "engine \<Rightarrow> (AxiosInstance \<Rightarrow> request \<Rightarrow> thrown + HetznerServer list)
     \<Rightarrow> world \<Rightarrow> list_servers_params \<Rightarrow> (thrown + tool_result) \<times> world" where
  "hetzner_list_servers L http w p = try_catch (list_servers_try L http w p)"

subsection \<open>\<^verbatim>\<open>hetzner_get_server\<close>\<close>

text \<open>
  An id that passed \<^verbatim>\<open>z.number().int().positive()\<close> is an integer; a template literal
  prints it as \<open>show_int\<close> does.
\<close>

record get_params =
  gp_id :: int
  gp_response_format :: ResponseFormat

definition simple_request :: "string \<Rightarrow> http_method \<Rightarrow> request" where
  "simple_request endpoint m = \<lparr> url = endpoint, http_verb = m, data = None, params = None \<rparr>"

definition get_server_output :: "engine \<Rightarrow> ResponseFormat \<Rightarrow> HetznerServer \<Rightarrow> tool_result" where
  "get_server_output L fmt srv =
     (if fmt = JSON then text_result (JSON_stringify (srv_raw srv))
      else text_result (join NL [''# Server Details'', [], formatServer L srv]))"

definition get_server_try ::
  "engine \<Rightarrow> (AxiosInstance \<Rightarrow> request \<Rightarrow> thrown + HetznerServer)
     \<Rightarrow> world \<Rightarrow> get_params \<Rightarrow> (thrown + tool_result) \<times> world" where
  "get_server_try L http w p =
     and_then (makeApiRequest http w (simple_request (''/servers/'' @ show_int (gp_id p)) GET))
       (\<lambda>srv. Inr (get_server_output L (gp_response_format p) srv))"

definition hetzner_get_server ::
  "engine \<Rightarrow> (AxiosInstance \<Rightarrow> request \<Rightarrow> thrown + HetznerServer)
     \<Rightarrow> world \<Rightarrow> get_params \<Rightarrow> (thrown + tool_result) \<times> world" where
  "hetzner_get_server L http w p = try_catch (get_server_try L http w p)"

subsection \<open>\<^verbatim>\<open>hetzner_create_server\<close>\<close>

record create_server_params =
  csp_name :: string
  csp_server_type :: string
  csp_image :: string
  csp_location :: "string option"
  csp_ssh_keys :: "(string + number) list option"
  csp_labels :: "(string \<times> string) list option"
  csp_start_after_create :: bool
  csp_response_format :: ResponseFormat

definition json_key_ref :: "string + number \<Rightarrow> json" where
  "json_key_ref k = (case k of Inl s \<Rightarrow> JString s | Inr n \<Rightarrow> JNumber n)"

definition create_server_body :: "create_server_params \<Rightarrow> (string \<times> json) list" where
  "create_server_body p =
     [(''name'', JString (csp_name p)),
      (''server_type'', JString (csp_server_type p)),
      (''image'', JString (csp_image p)),
      (''start_after_create'', JBool (csp_start_after_create p))]
     @ (case csp_location p of
          Some l \<Rightarrow> if l \<noteq> [] then [(''location'', JString l)] else []
        | None \<Rightarrow> [])
     @ (case csp_ssh_keys p of
          Some ks \<Rightarrow> if length ks > 0 then [(''ssh_keys'', JArray (map json_key_ref ks))] else []
        | None \<Rightarrow> [])
     @ (case csp_labels p of
          Some ls \<Rightarrow> [(''labels'', json_labels ls)]
        | None \<Rightarrow> [])"

definition create_server_request :: "create_server_params \<Rightarrow> request" where
  "create_server_request p =
     \<lparr> url = ''/servers'', http_verb = POST, data = Some (JObject (create_server_body p)), params = None \<rparr>"

definition warning_sign :: string where
  \<comment> \<open>U+26A0 U+FE0F in UTF-8\<close>
  "warning_sign = [CHR 0xE2, CHR 0x9A, CHR 0xA0, CHR 0xEF, CHR 0xB8, CHR 0x8F]"

definition root_password_line :: "string \<Rightarrow> string" where
  "root_password_line pw = ''**Root Password**: `'' @ pw @ ''`''"

definition save_password_line :: string where
  "save_password_line = warning_sign @ '' Save this password! It will not be shown again.''"

definition no_password_line :: string where
  "no_password_line = ''SSH key authentication is configured. No root password was generated.''"

definition password_lines :: "string option \<Rightarrow> string list" where
  \<comment> \<open>the branch on \<^verbatim>\<open>if (rootPassword)\<close>: null and the empty string are falsy\<close>
  "password_lines rootPassword =
     (case rootPassword of
        Some pw \<Rightarrow>
          if pw \<noteq> [] then [root_password_line pw, [], save_password_line] else [no_password_line]
      | None \<Rightarrow> [no_password_line])"

definition create_server_lines :: "engine \<Rightarrow> HetznerServer \<Rightarrow> string option \<Rightarrow> string list" where
  "create_server_lines L srv rootPassword =
     [''# Server Created'', [], formatServer L srv, []]
     @ password_lines rootPassword
     @ [[], ''The server is being provisioned. Use `hetzner_get_server` to check its status.'']"

definition create_server_output :: "engine \<Rightarrow> ResponseFormat \<Rightarrow> CreateServerResponse \<Rightarrow> tool_result" where
  "create_server_output L fmt d =
     (if fmt = JSON then
        text_result (JSON_stringify (JObject
          [(''server'', srv_raw (csr_server d)),
           (''root_password'', json_opt JString (csr_root_password d))]))
      else text_result (join NL (create_server_lines L (csr_server d) (csr_root_password d))))"

definition create_server_try ::
  "engine \<Rightarrow> (AxiosInstance \<Rightarrow> request \<Rightarrow> thrown + CreateServerResponse)
     \<Rightarrow> world \<Rightarrow> create_server_params \<Rightarrow> (thrown + tool_result) \<times> world" where
  "create_server_try L http w p =
     and_then (makeApiRequest http w (create_server_request p))
       (\<lambda>d. Inr (create_server_output L (csp_response_format p) d))"

definition hetzner_create_server ::
  "engine \<Rightarrow> (AxiosInstance \<Rightarrow> request \<Rightarrow> thrown + CreateServerResponse)
     \<Rightarrow> world \<Rightarrow> create_server_params \<Rightarrow> (thrown + tool_result) \<times> world" where
  "hetzner_create_server L http w p = try_catch (create_server_try L http w p)"

subsection \<open>Delete, power on, power off, reboot\<close>

definition action_output :: "int \<Rightarrow> string \<Rightarrow> HetznerAction \<Rightarrow> tool_result" where
  "action_output i verb a =
     text_result (''Server '' @ show_int i @ '' is '' @ verb @ ''. Action status: ''
                    @ action_status_text (act_status a))"

definition delete_server_try ::
  "(AxiosInstance \<Rightarrow> request \<Rightarrow> thrown + HetznerAction) \<Rightarrow> world \<Rightarrow> int \<Rightarrow> (thrown + tool_result) \<times> world" where
  "delete_server_try http w i =
     and_then (makeApiRequest http w (simple_request (''/servers/'' @ show_int i) DELETE))
       (\<lambda>a. Inr (action_output i ''being deleted'' a))"

definition hetzner_delete_server ::
  "(AxiosInstance \<Rightarrow> request \<Rightarrow> thrown + HetznerAction) \<Rightarrow> world \<Rightarrow> int \<Rightarrow> (thrown + tool_result) \<times> world" where
  "hetzner_delete_server http w i = try_catch (delete_server_try http w i)"

definition power_on_server_try ::
  "(AxiosInstance \<Rightarrow> request \<Rightarrow> thrown + HetznerAction) \<Rightarrow> world \<Rightarrow> int \<Rightarrow> (thrown + tool_result) \<times> world" where
  "power_on_server_try http w i =
     and_then
       (makeApiRequest http w (simple_request (''/servers/'' @ show_int i @ ''/actions/poweron'') POST))
       (\<lambda>a. Inr (action_output i ''powering on'' a))"

definition hetzner_power_on_server ::
  "(AxiosInstance \<Rightarrow> request \<Rightarrow> thrown + HetznerAction) \<Rightarrow> world \<Rightarrow> int \<Rightarrow> (thrown + tool_result) \<times> world" where
  "hetzner_power_on_server http w i = try_catch (power_on_server_try http w i)"

definition power_off_server_try ::
  "(AxiosInstance \<Rightarrow> request \<Rightarrow> thrown + HetznerAction) \<Rightarrow> world \<Rightarrow> int \<Rightarrow> (thrown + tool_result) \<times> world" where
  "power_off_server_try http w i =
     and_then
       (makeApiRequest http w (simple_request (''/servers/'' @ show_int i @ ''/actions/poweroff'') POST))
       (\<lambda>a. Inr (action_output i ''powering off'' a))"

definition hetzner_power_off_server ::
  "(AxiosInstance \<Rightarrow> request \<Rightarrow> thrown + HetznerAction) \<Rightarrow> world \<Rightarrow> int \<Rightarrow> (thrown + tool_result) \<times> world" where
  "hetzner_power_off_server http w i = try_catch (power_off_server_try http w i)"

definition reboot_server_try ::
  "(AxiosInstance \<Rightarrow> request \<Rightarrow> thrown + HetznerAction) \<Rightarrow> world \<Rightarrow> int \<Rightarrow> (thrown + tool_result) \<times> world" where
  "reboot_server_try http w i =
     and_then
       (makeApiRequest http w (simple_request (''/servers/'' @ show_int i @ ''/actions/reboot'') POST))
       (\<lambda>a. Inr (action_output i ''rebooting'' a))"

definition hetzner_reboot_server ::
  "(AxiosInstance \<Rightarrow> request \<Rightarrow> thrown + HetznerAction) \<Rightarrow> world \<Rightarrow> int \<Rightarrow> (thrown + tool_result) \<times> world" where
  "hetzner_reboot_server http w i = try_catch (reboot_server_try http w i)"

section \<open>SSH key tools: \<^verbatim>\<open>tools/ssh-keys.ts\<close>\<close>

definition formatSSHKey_lines :: "engine \<Rightarrow> HetznerSSHKey \<Rightarrow> string list" where
  "formatSSHKey_lines L k =
     [''## '' @ key_name k @ '' (ID: '' @ show_number (key_id k) @ '')'',
      ''- **Fingerprint**: '' @ key_fingerprint k,
      ''- **Created**: '' @ toLocaleString L (key_created k)]
     @ (if length (map fst (key_labels k)) > 0 then [format_labels (key_labels k)] else [])"

definition formatSSHKey :: "engine \<Rightarrow> HetznerSSHKey \<Rightarrow> string" where
  "formatSSHKey L k = join NL (formatSSHKey_lines L k)"

definition list_ssh_keys_output :: "engine \<Rightarrow> ResponseFormat \<Rightarrow> HetznerSSHKey list \<Rightarrow> tool_result" where
  "list_ssh_keys_output L fmt keys =
     (if fmt = JSON then text_result (JSON_stringify (JArray (map key_raw keys)))
      else if length keys = 0 then
        text_result ''No SSH keys found. Use `hetzner_create_ssh_key` to add one.''
      else text_result (join NL
             ([''# SSH Keys'', [], ''Found '' @ show_nat (length keys) @ '' SSH key(s):'', []]
              @ concat (map (\<lambda>k. [formatSSHKey L k, []]) keys))))"

definition list_ssh_keys_try ::
  "engine \<Rightarrow> (AxiosInstance \<Rightarrow> request \<Rightarrow> thrown + HetznerSSHKey list)
     \<Rightarrow> world \<Rightarrow> ResponseFormat \<Rightarrow> (thrown + tool_result) \<times> world" where
  "list_ssh_keys_try L http w fmt =
     and_then (makeApiRequest http w (simple_request ''/ssh_keys'' GET))
       (\<lambda>keys. Inr (list_ssh_keys_output L fmt keys))"

definition hetzner_list_ssh_keys ::
  "engine \<Rightarrow> (AxiosInstance \<Rightarrow> request \<Rightarrow> thrown + HetznerSSHKey list)
     \<Rightarrow> world \<Rightarrow> ResponseFormat \<Rightarrow> (thrown + tool_result) \<times> world" where
  "hetzner_list_ssh_keys L http w fmt = try_catch (list_ssh_keys_try L http w fmt)"

definition get_ssh_key_output :: "engine \<Rightarrow> ResponseFormat \<Rightarrow> HetznerSSHKey \<Rightarrow> tool_result" where
  "get_ssh_key_output L fmt k =
     (if fmt = JSON then text_result (JSON_stringify (key_raw k))
      else text_result (join NL
             [''# SSH Key Details'', [], formatSSHKey L k, [], ''**Public Key**:'', ''```'',
              key_public_key k, ''```'']))"

definition get_ssh_key_try ::
  "engine \<Rightarrow> (AxiosInstance \<Rightarrow> request \<Rightarrow> thrown + HetznerSSHKey)
     \<Rightarrow> world \<Rightarrow> get_params \<Rightarrow> (thrown + tool_result) \<times> world" where
  "get_ssh_key_try L http w p =
     and_then (makeApiRequest http w (simple_request (''/ssh_keys/'' @ show_int (gp_id p)) GET))
       (\<lambda>k. Inr (get_ssh_key_output L (gp_response_format p) k))"

definition hetzner_get_ssh_key ::
  "engine \<Rightarrow> (AxiosInstance \<Rightarrow> request \<Rightarrow> thrown + HetznerSSHKey)
     \<Rightarrow> world \<Rightarrow> get_params \<Rightarrow> (thrown + tool_result) \<times> world" where
  "hetzner_get_ssh_key L http w p = try_catch (get_ssh_key_try L http w p)"

record create_ssh_key_params =
  ck_name :: string
  ck_public_key :: string
  ck_labels :: "(string \<times> string) list option"
  ck_response_format :: ResponseFormat

definition create_ssh_key_request :: "create_ssh_key_params \<Rightarrow> request" where
  "create_ssh_key_request p =
     \<lparr> url = ''/ssh_keys'', http_verb = POST,
       data = Some (JObject
         ([(''name'', JString (ck_name p)), (''public_key'', JString (ck_public_key p))]
          @ (case ck_labels p of Some ls \<Rightarrow> [(''labels'', json_labels ls)] | None \<Rightarrow> []))),
       params = None \<rparr>"

definition create_ssh_key_output :: "engine \<Rightarrow> ResponseFormat \<Rightarrow> HetznerSSHKey \<Rightarrow> tool_result" where
  "create_ssh_key_output L fmt k =
     (if fmt = JSON then text_result (JSON_stringify (key_raw k))
      else text_result (join NL
             [''# SSH Key Created'', [], formatSSHKey L k, [],
              ''You can now use this SSH key when creating servers by specifying its name or ID.'']))"

definition create_ssh_key_try ::
  "engine \<Rightarrow> (AxiosInstance \<Rightarrow> request \<Rightarrow> thrown + HetznerSSHKey)
     \<Rightarrow> world \<Rightarrow> create_ssh_key_params \<Rightarrow> (thrown + tool_result) \<times> world" where
  "create_ssh_key_try L http w p =
     and_then (makeApiRequest http w (create_ssh_key_request p))
       (\<lambda>k. Inr (create_ssh_key_output L (ck_response_format p) k))"

definition hetzner_create_ssh_key ::
  "engine \<Rightarrow> (AxiosInstance \<Rightarrow> request \<Rightarrow> thrown + HetznerSSHKey)
     \<Rightarrow> world \<Rightarrow> create_ssh_key_params \<Rightarrow> (thrown + tool_result) \<times> world" where
  "hetzner_create_ssh_key L http w p = try_catch (create_ssh_key_try L http w p)"

definition delete_ssh_key_try ::
  "(AxiosInstance \<Rightarrow> request \<Rightarrow> thrown + unit) \<Rightarrow> world \<Rightarrow> int \<Rightarrow> (thrown + tool_result) \<times> world" where
  "delete_ssh_key_try http w i =
     and_then (makeApiRequest http w (simple_request (''/ssh_keys/'' @ show_int i) DELETE))
       (\<lambda>_. Inr (text_result (''SSH key '' @ show_int i @ '' has been deleted.'')))"

definition hetzner_delete_ssh_key ::
  "(AxiosInstance \<Rightarrow> request \<Rightarrow> thrown + unit) \<Rightarrow> world \<Rightarrow> int \<Rightarrow> (thrown + tool_result) \<times> world" where
  "hetzner_delete_ssh_key http w i = try_catch (delete_ssh_key_try http w i)"

section \<open>Reference tools: \<^verbatim>\<open>tools/reference.ts\<close>\<close>

definition euro :: string where
  \<comment> \<open>U+20AC in UTF-8\<close>
  "euro = [CHR 0xE2, CHR 0x82, CHR 0xAC]"

definition server_type_lines :: "HetznerServerType \<Rightarrow> string list" where
  "server_type_lines st =
     [''## '' @ st_name st,
      ''- **Description**: '' @ st_description st,
      ''- **CPU**: '' @ show_number (st_cores st) @ '' cores ('' @ st_cpu_type st @ '')'',
      ''- **Memory**: '' @ show_number (st_memory st) @ '' GB'',
      ''- **Disk**: '' @ show_number (st_disk st) @ '' GB'',
      ''- **Architecture**: '' @ st_architecture st]
     @ (case st_prices st of
          price # _ \<Rightarrow>
            [''- **Price**: '' @ euro @ gross (price_monthly price) @ ''/month ('' @ euro
               @ gross (price_hourly price) @ ''/hour)'']
        | [] \<Rightarrow> [])
     @ [[]]"

definition list_server_types_output :: "ResponseFormat \<Rightarrow> HetznerServerType list \<Rightarrow> tool_result" where
  "list_server_types_output fmt serverTypes =
     (if fmt = JSON then text_result (JSON_stringify (JArray (map st_raw serverTypes)))
      else text_result (join NL
             ([''# Available Server Types'', []] @ concat (map server_type_lines serverTypes))))"

definition list_server_types_try ::
  "(AxiosInstance \<Rightarrow> request \<Rightarrow> thrown + HetznerServerType list)
     \<Rightarrow> world \<Rightarrow> ResponseFormat \<Rightarrow> (thrown + tool_result) \<times> world" where
  "list_server_types_try http w fmt =
     and_then (makeApiRequest http w (simple_request ''/server_types'' GET))
       (\<lambda>serverTypes. Inr (list_server_types_output fmt serverTypes))"

definition hetzner_list_server_types ::
  "(AxiosInstance \<Rightarrow> request \<Rightarrow> thrown + HetznerServerType list)
     \<Rightarrow> world \<Rightarrow> ResponseFormat \<Rightarrow> (thrown + tool_result) \<times> world" where
  "hetzner_list_server_types http w fmt = try_catch (list_server_types_try http w fmt)"

subsection \<open>\<^verbatim>\<open>hetzner_list_images\<close>\<close>

record list_images_params =
  li_type :: "image_type option"
  li_response_format :: ResponseFormat

definition list_images_request :: "list_images_params \<Rightarrow> request" where
  "list_images_request p =
     \<lparr> url = ''/images'', http_verb = GET, data = None,
       params = Some [(''type'', (case li_type p of Some t \<Rightarrow> image_type_text t | None \<Rightarrow> ''system''))] \<rparr>"

text \<open>
  The markdown branch groups the images in a plain object \<^verbatim>\<open>byFlavor\<close>.  Two things of
  JavaScript objects show in the output and are modelled:
  \<^item> \<^verbatim>\<open>byFlavor[flavor]\<close> also finds what \<^verbatim>\<open>Object.prototype\<close> offers, so for a flavor
    named like one of its members the guard \<^verbatim>\<open>!byFlavor[flavor]\<close> is false and
    \<^verbatim>\<open>.push\<close> is not a function: a \<^verbatim>\<open>TypeError\<close> is thrown (message as V8 words it);
  \<^item> \<^verbatim>\<open>Object.entries\<close> lists array-index keys first, in ascending numeric order, then
    the other keys in the order they were created.
  The heading of a group is the flavor with its first character in upper case: computed here
  when that character is ASCII, taken from the engine otherwise.
\<close>

definition Object_prototype_keys :: "string list" where
  "Object_prototype_keys =
     [''constructor'', ''__defineGetter__'', ''__defineSetter__'', ''hasOwnProperty'',
      ''__lookupGetter__'', ''__lookupSetter__'', ''isPrototypeOf'', ''propertyIsEnumerable'',
      ''toString'', ''valueOf'', ''__proto__'', ''toLocaleString'']"

definition is_digit :: "char \<Rightarrow> bool" where
  "is_digit c = (48 \<le> (of_char c :: nat) \<and> (of_char c :: nat) \<le> 57)"

definition digits_value :: "string \<Rightarrow> int" where
  "digits_value s = foldl (\<lambda>a c. 10 * a + ((of_char c :: int) - 48)) 0 s"

definition array_index :: "string \<Rightarrow> int option" where
  "array_index s =
     (if s \<noteq> [] \<and> list_all is_digit s \<and> (s = ''0'' \<or> hd s \<noteq> CHR ''0'') \<and> digits_value s < 4294967295
      then Some (digits_value s) else None)"

definition Object_entries :: "(string \<times> 'a) list \<Rightarrow> (string \<times> 'a) list" where
  "Object_entries props =
     map snd (sort_key fst
       (List.map_filter (\<lambda>kv. case array_index (fst kv) of Some i \<Rightarrow> Some (i, kv) | None \<Rightarrow> None) props))
     @ filter (\<lambda>kv. array_index (fst kv) = None) props"

fun push_flavor :: "(string \<times> HetznerImage list) list \<Rightarrow> string \<Rightarrow> HetznerImage \<Rightarrow> (string \<times> HetznerImage list) list" where
  "push_flavor [] flavor img = [(flavor, [img])]"
| "push_flavor ((k, imgs) # rest) flavor img =
     (if k = flavor then (k, imgs @ [img]) # rest else (k, imgs) # push_flavor rest flavor img)"

fun group_by_flavor ::
  "(string \<times> HetznerImage list) list \<Rightarrow> HetznerImage list \<Rightarrow> thrown + (string \<times> HetznerImage list) list" where
  "group_by_flavor byFlavor [] = Inr byFlavor"
| "group_by_flavor byFlavor (img # imgs) =
     (let flavor = or_else (Some (img_os_flavor img)) ''other'' in
      if flavor \<in> set Object_prototype_keys
      then Inl (TypeError ''byFlavor[flavor].push is not a function'')
      else group_by_flavor (push_flavor byFlavor flavor img) imgs)"

definition toUpperCase_char :: "char \<Rightarrow> char" where
  "toUpperCase_char c =
     (if 97 \<le> (of_char c :: nat) \<and> (of_char c :: nat) \<le> 122 then char_of ((of_char c :: nat) - 32) else c)"

definition capitalize :: "engine \<Rightarrow> string \<Rightarrow> string" where
  \<comment> \<open>\<^verbatim>\<open>flavor.charAt(0).toUpperCase() + flavor.slice(1)\<close>\<close>
  "capitalize L s =
     (case s of
        [] \<Rightarrow> []
      | c # cs \<Rightarrow> if (of_char c :: nat) < 128 then toUpperCase_char c # cs else toUpperCase_first L s)"

definition image_line :: "HetznerImage \<Rightarrow> string" where
  "image_line img =
     ''- **'' @ img_name img @ ''** - '' @ img_description img @ '' ('' @ img_architecture img @ '')''"

definition flavor_lines :: "engine \<Rightarrow> string \<times> HetznerImage list \<Rightarrow> string list" where
  "flavor_lines L e = [''## '' @ capitalize L (fst e)] @ map image_line (snd e) @ [[]]"

definition list_images_lines :: "engine \<Rightarrow> HetznerImage list \<Rightarrow> thrown + string list" where
  "list_images_lines L images =
     (case group_by_flavor [] images of
        Inl e \<Rightarrow> Inl e
      | Inr byFlavor \<Rightarrow>
          Inr ([''# Available Images'', []] @ concat (map (flavor_lines L) (Object_entries byFlavor))))"

definition list_images_output :: "engine \<Rightarrow> ResponseFormat \<Rightarrow> HetznerImage list \<Rightarrow> thrown + tool_result" where
  "list_images_output L fmt images =
     (if fmt = JSON then Inr (text_result (JSON_stringify (JArray (map img_raw images))))
      else (case list_images_lines L images of
              Inl e \<Rightarrow> Inl e
            | Inr lines \<Rightarrow> Inr (text_result (join NL lines))))"

definition list_images_try ::
  "engine \<Rightarrow> (AxiosInstance \<Rightarrow> request \<Rightarrow> thrown + HetznerImage list)
     \<Rightarrow> world \<Rightarrow> list_images_params \<Rightarrow> (thrown + tool_result) \<times> world" where
  "list_images_try L http w p =
     and_then (makeApiRequest http w (list_images_request p))
       (\<lambda>images. list_images_output L (li_response_format p)
                    (filter (\<lambda>img. img_status img = Available) images))"

definition hetzner_list_images ::
  "engine \<Rightarrow> (AxiosInstance \<Rightarrow> request \<Rightarrow> thrown + HetznerImage list)
     \<Rightarrow> world \<Rightarrow> list_images_params \<Rightarrow> (thrown + tool_result) \<times> world" where
  "hetzner_list_images L http w p = try_catch (list_images_try L http w p)"

subsection \<open>\<^verbatim>\<open>hetzner_list_locations\<close>\<close>

definition location_lines :: "HetznerLocation \<Rightarrow> string list" where
  "location_lines loc =
     [''## '' @ loc_name loc,
      ''- **City**: '' @ loc_city loc @ '', '' @ loc_country loc,
      ''- **Description**: '' @ loc_description loc,
      ''- **Network Zone**: '' @ loc_network_zone loc,
      []]"

definition list_locations_output :: "ResponseFormat \<Rightarrow> HetznerLocation list \<Rightarrow> tool_result" where
  "list_locations_output fmt locations =
     (if fmt = JSON then text_result (JSON_stringify (JArray (map loc_raw locations)))
      else text_result (join NL
             ([''# Available Locations'', []] @ concat (map location_lines locations))))"

definition list_locations_try ::
  "(AxiosInstance \<Rightarrow> request \<Rightarrow> thrown + HetznerLocation list)
     \<Rightarrow> world \<Rightarrow> ResponseFormat \<Rightarrow> (thrown + tool_result) \<times> world" where
  "list_locations_try http w fmt =
     and_then (makeApiRequest http w (simple_request ''/locations'' GET))
       (\<lambda>locations. Inr (list_locations_output fmt locations))"

definition hetzner_list_locations ::
  "(AxiosInstance \<Rightarrow> request \<Rightarrow> thrown + HetznerLocation list)
     \<Rightarrow> world \<Rightarrow> ResponseFormat \<Rightarrow> (thrown + tool_result) \<times> world" where
  "hetzner_list_locations http w fmt = try_catch (list_locations_try http w fmt)"

section \<open>Input validation of \<^verbatim>\<open>hetzner_create_server\<close>\<close>

text \<open>
  The arguments as the caller sends them, before the \<^verbatim>\<open>inputSchema\<close> has seen them:
  optional members may be missing, \<^verbatim>\<open>response_format\<close> is still a string, and members
  the schema does not know are listed by name.
\<close>

record create_server_input =
  in_name :: string
  in_server_type :: string
  in_image :: string
  in_location :: "string option"
  in_ssh_keys :: "(string + number) list option"
  in_labels :: "(string \<times> string) list option"
  in_start_after_create :: "bool option"
  in_response_format :: "string option"
  in_unknown_keys :: "string list"

definition name_char :: "char \<Rightarrow> bool" where
  \<comment> \<open>the character class \<^verbatim>\<open>[a-zA-Z0-9-]\<close>\<close>
  "name_char c =
     (let n = (of_char c :: nat) in
      (97 \<le> n \<and> n \<le> 122) \<or> (65 \<le> n \<and> n \<le> 90) \<or> (48 \<le> n \<and> n \<le> 57) \<or> n = 45)"

definition name_regex :: "string \<Rightarrow> bool" where
  \<comment> \<open>\<^verbatim>\<open>/^[a-zA-Z0-9-]+$/\<close>\<close>
  "name_regex s = (s \<noteq> [] \<and> list_all name_char s)"

definition name_schema :: "string \<Rightarrow> bool" where
  \<comment> \<open>\<^verbatim>\<open>z.string().min(1).max(255).regex(...)\<close>\<close>
  "name_schema s = (1 \<le> length s \<and> length s \<le> 255 \<and> name_regex s)"

definition ResponseFormatSchema :: "string option \<Rightarrow> ResponseFormat option" where
  \<comment> \<open>\<^verbatim>\<open>z.nativeEnum(ResponseFormat).default(ResponseFormat.MARKDOWN)\<close>\<close>
  "ResponseFormatSchema x =
     (case x of
        None \<Rightarrow> Some MARKDOWN
      | Some s \<Rightarrow> if s = ''markdown'' then Some MARKDOWN else if s = ''json'' then Some JSON else None)"

definition create_server_inputSchema :: "create_server_input \<Rightarrow> create_server_params option" where
  "create_server_inputSchema i =
     (case ResponseFormatSchema (in_response_format i) of
        None \<Rightarrow> None
      | Some fmt \<Rightarrow>
          if name_schema (in_name i) \<and> 1 \<le> length (in_server_type i) \<and> 1 \<le> length (in_image i)
             \<and> in_unknown_keys i = []
          then Some \<lparr> csp_name = in_name i,
                      csp_server_type = in_server_type i,
                      csp_image = in_image i,
                      csp_location = in_location i,
                      csp_ssh_keys = in_ssh_keys i,
                      csp_labels = in_labels i,
                      csp_start_after_create = (case in_start_after_create i of None \<Rightarrow> True | Some b \<Rightarrow> b),
                      csp_response_format = fmt \<rparr>
          else None)"

text \<open>
  \<^verbatim>\<open>server.registerTool(name, {inputSchema, ...}, handler)\<close> hands the tool to the MCP
  runtime, which parses the arguments with the schema and calls the handler with the parsed
  value only when parsing succeeds.  \<open>None\<close> in the first component says the call was turned
  down by the schema and the handler never ran.
\<close>

definition registered_create_server ::
  "engine \<Rightarrow> (AxiosInstance \<Rightarrow> request \<Rightarrow> thrown + CreateServerResponse)
     \<Rightarrow> world \<Rightarrow> create_server_input \<Rightarrow> (thrown + tool_result) option \<times> world" where
  "registered_create_server L http w i =
     (case create_server_inputSchema i of
        None \<Rightarrow> (None, w)
      | Some p \<Rightarrow> (case hetzner_create_server L http w p of (r, w') \<Rightarrow> (Some r, w')))"

section \<open>All fourteen tools\<close>

text \<open>
  The provider, one answer function per response type the handlers ask
  \<^verbatim>\<open>makeApiRequest\<close> for, and a tool call with its validated arguments.  \<open>tool_try\<close> is
  the \<^verbatim>\<open>try\<close> block of the called handler, \<open>run_tool\<close> the handler itself.
\<close>

record network =
  net_servers :: "AxiosInstance \<Rightarrow> request \<Rightarrow> thrown + HetznerServer list"
  net_server :: "AxiosInstance \<Rightarrow> request \<Rightarrow> thrown + HetznerServer"
  net_create_server :: "AxiosInstance \<Rightarrow> request \<Rightarrow> thrown + CreateServerResponse"
  net_action :: "AxiosInstance \<Rightarrow> request \<Rightarrow> thrown + HetznerAction"
  net_ssh_keys :: "AxiosInstance \<Rightarrow> request \<Rightarrow> thrown + HetznerSSHKey list"
  net_ssh_key :: "AxiosInstance \<Rightarrow> request \<Rightarrow> thrown + HetznerSSHKey"
  net_untyped :: "AxiosInstance \<Rightarrow> request \<Rightarrow> thrown + unit"
  net_server_types :: "AxiosInstance \<Rightarrow> request \<Rightarrow> thrown + HetznerServerType list"
  net_images :: "AxiosInstance \<Rightarrow> request \<Rightarrow> thrown + HetznerImage list"
  net_locations :: "AxiosInstance \<Rightarrow> request \<Rightarrow> thrown + HetznerLocation list"

datatype tool_call =
    ListServers list_servers_params
  | GetServer get_params
  | CreateServer create_server_params
  | DeleteServer int
  | PowerOnServer int
  | PowerOffServer int
  | RebootServer int
  | ListSSHKeys ResponseFormat
  | GetSSHKey get_params
  | CreateSSHKey create_ssh_key_params
  | DeleteSSHKey int
  | ListServerTypes ResponseFormat
  | ListImages list_images_params
  | ListLocations ResponseFormat

fun tool_try :: "engine \<Rightarrow> network \<Rightarrow> world \<Rightarrow> tool_call \<Rightarrow> (thrown + tool_result) \<times> world" where
  "tool_try L N w (ListServers p) = list_servers_try L (net_servers N) w p"
| "tool_try L N w (GetServer p) = get_server_try L (net_server N) w p"
| "tool_try L N w (CreateServer p) = create_server_try L (net_create_server N) w p"
| "tool_try L N w (DeleteServer i) = delete_server_try (net_action N) w i"
| "tool_try L N w (PowerOnServer i) = power_on_server_try (net_action N) w i"
| "tool_try L N w (PowerOffServer i) = power_off_server_try (net_action N) w i"
| "tool_try L N w (RebootServer i) = reboot_server_try (net_action N) w i"
| "tool_try L N w (ListSSHKeys fmt) = list_ssh_keys_try L (net_ssh_keys N) w fmt"
| "tool_try L N w (GetSSHKey p) = get_ssh_key_try L (net_ssh_key N) w p"
| "tool_try L N w (CreateSSHKey p) = create_ssh_key_try L (net_ssh_key N) w p"
| "tool_try L N w (DeleteSSHKey i) = delete_ssh_key_try (net_untyped N) w i"
| "tool_try L N w (ListServerTypes fmt) = list_server_types_try (net_server_types N) w fmt"
| "tool_try L N w (ListImages p) = list_images_try L (net_images N) w p"
| "tool_try L N w (ListLocations fmt) = list_locations_try (net_locations N) w fmt"

fun run_tool :: "engine \<Rightarrow> network \<Rightarrow> world \<Rightarrow> tool_call \<Rightarrow> (thrown + tool_result) \<times> world" where
  "run_tool L N w (ListServers p) = hetzner_list_servers L (net_servers N) w p"
| "run_tool L N w (GetServer p) = hetzner_get_server L (net_server N) w p"
| "run_tool L N w (CreateServer p) = hetzner_create_server L (net_create_server N) w p"
| "run_tool L N w (DeleteServer i) = hetzner_delete_server (net_action N) w i"
| "run_tool L N w (PowerOnServer i) = hetzner_power_on_server (net_action N) w i"
| "run_tool L N w (PowerOffServer i) = hetzner_power_off_server (net_action N) w i"
| "run_tool L N w (RebootServer i) = hetzner_reboot_server (net_action N) w i"
| "run_tool L N w (ListSSHKeys fmt) = hetzner_list_ssh_keys L (net_ssh_keys N) w fmt"
| "run_tool L N w (GetSSHKey p) = hetzner_get_ssh_key L (net_ssh_key N) w p"
| "run_tool L N w (CreateSSHKey p) = hetzner_create_ssh_key L (net_ssh_key N) w p"
| "run_tool L N w (DeleteSSHKey i) = hetzner_delete_ssh_key (net_untyped N) w i"
| "run_tool L N w (ListServerTypes fmt) = hetzner_list_server_types (net_server_types N) w fmt"
| "run_tool L N w (ListImages p) = hetzner_list_images L (net_images N) w p"
| "run_tool L N w (ListLocations fmt) = hetzner_list_locations (net_locations N) w fmt"

text \<open>The request a tool call builds, for the statements about what is sent.\<close>

fun tool_request :: "tool_call \<Rightarrow> request" where
  "tool_request (ListServers p) = list_servers_request p"
| "tool_request (GetServer p) = simple_request (''/servers/'' @ show_int (gp_id p)) GET"
| "tool_request (CreateServer p) = create_server_request p"
| "tool_request (DeleteServer i) = simple_request (''/servers/'' @ show_int i) DELETE"
| "tool_request (PowerOnServer i) = simple_request (''/servers/'' @ show_int i @ ''/actions/poweron'') POST"
| "tool_request (PowerOffServer i) = simple_request (''/servers/'' @ show_int i @ ''/actions/poweroff'') POST"
| "tool_request (RebootServer i) = simple_request (''/servers/'' @ show_int i @ ''/actions/reboot'') POST"
| "tool_request (ListSSHKeys fmt) = simple_request ''/ssh_keys'' GET"
| "tool_request (GetSSHKey p) = simple_request (''/ssh_keys/'' @ show_int (gp_id p)) GET"
| "tool_request (CreateSSHKey p) = create_ssh_key_request p"
| "tool_request (DeleteSSHKey i) = simple_request (''/ssh_keys/'' @ show_int i) DELETE"
| "tool_request (ListServerTypes fmt) = simple_request ''/server_types'' GET"
| "tool_request (ListImages p) = list_images_request p"
| "tool_request (ListLocations fmt) = simple_request ''/locations'' GET"

section \<open>Notions for the statements, values for the examples\<close>





text \<open>
  Concrete inputs: an engine that leaves the timestamp and the heading as they are, a process
  with and without the token, one server, two images, error bodies with a proper and with an
  inconvertible detail message, and providers that answer a create request with and without a
  root password, answer with lists, refuse, or cannot be reached.
\<close>

definition example_locale :: engine where
  "example_locale = \<lparr>toLocaleString = (\<lambda>s. s), toUpperCase_first = (\<lambda>s. s)\<rparr>"

definition configured_world :: world where
  "configured_world = \<lparr>env_HETZNER_API_TOKEN = Some ''secret'', apiClient = None, sent = []\<rparr>"

definition unconfigured_world :: world where
  "unconfigured_world = \<lparr>env_HETZNER_API_TOKEN = None, apiClient = None, sent = []\<rparr>"

definition example_server :: HetznerServer where
  "example_server =
     \<lparr> srv_id = IntNum 42,
       srv_name = ''my-app'',
       srv_status = Initializing,
       srv_public_net = \<lparr>ipv4 = Some ''203.0.113.7'', ipv6 = None\<rparr>,
       srv_server_type = \<lparr>sti_id = IntNum 104, sti_name = ''cx22'', sti_description = ''CX22'',
                           sti_cores = IntNum 2, sti_memory = IntNum 4, sti_disk = IntNum 40\<rparr>,
       srv_datacenter = \<lparr>dc_id = IntNum 4, dc_name = ''fsn1-dc14'', dc_description = ''Falkenstein 1 DC14'',
                          dc_location = \<lparr>li_id = IntNum 1, li_name = ''fsn1'', li_city = ''Falkenstein'',
                                          li_country = ''DE''\<rparr>\<rparr>,
       srv_image = None,
       srv_labels = [],
       srv_created = ''2024-05-01T10:00:00+00:00'',
       srv_raw = JObject
         [(''id'', JNumber (IntNum 42)),
          (''name'', JString ''my-app''),
          (''status'', JString ''initializing''),
          (''created'', JString ''2024-05-01T10:00:00+00:00''),
          (''public_net'', JObject [(''ipv4'', JObject [(''ip'', JString ''203.0.113.7'')]), (''ipv6'', JNull)]),
          (''server_type'', JObject
             [(''id'', JNumber (IntNum 104)), (''name'', JString ''cx22''), (''description'', JString ''CX22''),
              (''cores'', JNumber (IntNum 2)), (''memory'', JNumber (IntNum 4)), (''disk'', JNumber (IntNum 40))]),
          (''datacenter'', JObject
             [(''id'', JNumber (IntNum 4)), (''name'', JString ''fsn1-dc14''),
              (''description'', JString ''Falkenstein 1 DC14''),
              (''location'', JObject
                 [(''id'', JNumber (IntNum 1)), (''name'', JString ''fsn1''),
                  (''city'', JString ''Falkenstein''), (''country'', JString ''DE'')])]),
          (''image'', JNull),
          (''labels'', JObject [])] \<rparr>"

definition example_action :: HetznerAction where
  "example_action =
     \<lparr> act_id = IntNum 7, act_command = ''create_server'', act_status = ActionRunning,
       act_progress = IntNum 0, act_started = ''2024-05-01T10:00:00+00:00'', act_finished = None,
       act_error = None \<rparr>"

definition example_create_params :: create_server_params where
  "example_create_params =
     \<lparr> csp_name = ''my-app'', csp_server_type = ''cx22'', csp_image = ''ubuntu-24.04'',
       csp_location = None, csp_ssh_keys = None, csp_labels = None,
       csp_start_after_create = True, csp_response_format = MARKDOWN \<rparr>"

definition answers_without_password :: "AxiosInstance \<Rightarrow> request \<Rightarrow> thrown + CreateServerResponse" where
  "answers_without_password c r =
     Inr \<lparr>csr_server = example_server, csr_action = example_action, csr_root_password = None\<rparr>"

definition answers_with_password :: "AxiosInstance \<Rightarrow> request \<Rightarrow> thrown + CreateServerResponse" where
  "answers_with_password c r =
     Inr \<lparr>csr_server = example_server, csr_action = example_action, csr_root_password = Some ''s3cret''\<rparr>"

definition answers_nothing :: "AxiosInstance \<Rightarrow> request \<Rightarrow> thrown + 'a list" where
  "answers_nothing c r = Inr []"

definition unreachable :: "AxiosInstance \<Rightarrow> request \<Rightarrow> thrown + 'a" where
  "unreachable c r =
     Inl (AxiosError None (Some ''ENOTFOUND'') (JsStr ''getaddrinfo ENOTFOUND api.hetzner.cloud''))"

definition unreachable_network :: network where
  "unreachable_network =
     \<lparr> net_servers = unreachable, net_server = unreachable, net_create_server = unreachable,
       net_action = unreachable, net_ssh_keys = unreachable, net_ssh_key = unreachable,
       net_untyped = unreachable, net_server_types = unreachable, net_images = unreachable,
       net_locations = unreachable \<rparr>"

definition ubuntu_image :: HetznerImage where
  "ubuntu_image =
     \<lparr> img_id = IntNum 161547269, img_name = ''ubuntu-24.04'', img_description = ''Ubuntu 24.04'',
       img_os_flavor = ''ubuntu'', img_os_version = ''24.04'', img_type = System,
       img_status = Available, img_architecture = ''x86'',
       img_raw = JObject
         [(''id'', JNumber (IntNum 161547269)), (''type'', JString ''system''),
          (''status'', JString ''available''), (''name'', JString ''ubuntu-24.04''),
          (''description'', JString ''Ubuntu 24.04''), (''os_flavor'', JString ''ubuntu''),
          (''os_version'', JString ''24.04''), (''architecture'', JString ''x86''),
          (''rapid_deploy'', JBool True)] \<rparr>"

definition pending_image :: HetznerImage where
  "pending_image =
     \<lparr> img_id = IntNum 2, img_name = ''pending'', img_description = ''Snapshot in the making'',
       img_os_flavor = ''debian'', img_os_version = ''12'', img_type = System,
       img_status = Creating, img_architecture = ''arm'',
       img_raw = JObject
         [(''id'', JNumber (IntNum 2)), (''type'', JString ''system''),
          (''status'', JString ''creating''), (''name'', JString ''pending''),
          (''description'', JString ''Snapshot in the making''), (''os_flavor'', JString ''debian''),
          (''os_version'', JString ''12''), (''architecture'', JString ''arm'')] \<rparr>"


definition answers_two_images :: "AxiosInstance \<Rightarrow> request \<Rightarrow> thrown + HetznerImage list" where
  "answers_two_images c r = Inr [pending_image, ubuntu_image]"








section \<open>The error normalizer\<close>

lemma template_string: "template t (JsStr s) = Inr (t @ s)"
  by (simp add: template_def)





section \<open>Facts shared by the handlers\<close>

lemma snd_try_catch: "snd (try_catch r) = snd r"
  by (cases r) (auto simp: try_catch_def split: sum.splits)

lemma snd_and_then: "snd (and_then r f) = snd r"
  by (cases r) (auto simp: and_then_def split: sum.splits)

lemma makeApiRequest_memo:
  "apiClient w = Some c \<Longrightarrow> makeApiRequest http w req = (http c req, w\<lparr>sent := sent w @ [req]\<rparr>)"
  by (simp add: makeApiRequest_def getApiClient_def)

lemma makeApiRequest_ok:
  "getApiClient w = (Inr c, w') \<Longrightarrow> makeApiRequest http w req = (http c req, w'\<lparr>sent := sent w' @ [req]\<rparr>)"
  by (simp add: makeApiRequest_def)

lemma makeApiRequest_fail:
  "getApiClient w = (Inl e, w') \<Longrightarrow> makeApiRequest http w req = (Inl e, w')"
  by (simp add: makeApiRequest_def)

lemmas try_defs =
  list_servers_try_def get_server_try_def create_server_try_def delete_server_try_def
  power_on_server_try_def power_off_server_try_def reboot_server_try_def
  list_ssh_keys_try_def get_ssh_key_try_def create_ssh_key_try_def delete_ssh_key_try_def
  list_server_types_try_def list_images_try_def list_locations_try_def

lemmas handler_defs =
  hetzner_list_servers_def hetzner_get_server_def hetzner_create_server_def hetzner_delete_server_def
  hetzner_power_on_server_def hetzner_power_off_server_def hetzner_reboot_server_def
  hetzner_list_ssh_keys_def hetzner_get_ssh_key_def hetzner_create_ssh_key_def hetzner_delete_ssh_key_def
  hetzner_list_server_types_def hetzner_list_images_def hetzner_list_locations_def

lemma run_tool_try_catch: "run_tool L N w call = try_catch (tool_try L N w call)"
  by (cases call) (simp_all add: handler_defs)

lemma snd_tool_try: "snd (tool_try L N w call) = snd (makeApiRequest (\<lambda>_ _. Inr ()) w (tool_request call))"
  by (cases call) (simp_all add: try_defs snd_and_then makeApiRequest_def split: prod.splits sum.splits)

lemma run_tool_keeps_client:
  "apiClient w = Some c \<Longrightarrow> apiClient (snd (run_tool L N w call)) = Some c"
  by (simp add: run_tool_try_catch snd_try_catch snd_tool_try makeApiRequest_memo)


lemma tool_try_no_client:
  "getApiClient w = (Inl e, w') \<Longrightarrow> tool_try L N w call = (Inl e, w')"
  by (cases call) (simp_all add: try_defs makeApiRequest_fail and_then_def)


section \<open>The memoized client\<close>

text \<open>
  C8.  The first successful \<open>getApiClient\<close> (no client stored yet) reads the token from the
  environment and builds the client from it: the fixed base URL, a timeout of 30000 ms, and
  the headers \<open>Authorization: Bearer\<close> with that token, \<open>Content-Type\<close> and \<open>Accept\<close>
  for JSON.  It stores the client and changes nothing else.  From then on \<open>getApiClient\<close>
  returns that same client and leaves the state alone, whatever the environment variable holds
  by then, and no tool call replaces the stored client.
\<close>

theorem getApiClient_memoized:
  assumes "apiClient w = None" and "getApiClient w = (Inr c, w')"
  shows "(\<exists>token. env_HETZNER_API_TOKEN w = Some token \<and> token \<noteq> []
            \<and> c = \<lparr> baseURL = ''https://api.hetzner.cloud/v1'',
                      timeout = 30000,
                      headers = [(''Authorization'', ''Bearer '' @ token),
                                 (''Content-Type'', ''application/json''),
                                 (''Accept'', ''application/json'')] \<rparr>)
       \<and> w' = w\<lparr>apiClient := Some c\<rparr>
       \<and> getApiClient (w'\<lparr>env_HETZNER_API_TOKEN := t, sent := s\<rparr>)
           = (Inr c, w'\<lparr>env_HETZNER_API_TOKEN := t, sent := s\<rparr>)
       \<and> apiClient (snd (run_tool L N w' call)) = Some c"
proof -
  from assms obtain token where tok: "env_HETZNER_API_TOKEN w = Some token" "token \<noteq> []"
      and c: "c = axios_create token" and w': "w' = w\<lparr>apiClient := Some c\<rparr>"
    by (auto simp: getApiClient_def split: option.splits if_splits)
  have built: "c = \<lparr> baseURL = ''https://api.hetzner.cloud/v1'',
                      timeout = 30000,
                      headers = [(''Authorization'', ''Bearer '' @ token),
                                 (''Content-Type'', ''application/json''),
                                 (''Accept'', ''application/json'')] \<rparr>"
    by (simp add: c axios_create_def API_BASE_URL_def)
  have memo: "apiClient w' = Some c" by (simp add: w')
  have again: "getApiClient (w'\<lparr>env_HETZNER_API_TOKEN := t, sent := s\<rparr>)
           = (Inr c, w'\<lparr>env_HETZNER_API_TOKEN := t, sent := s\<rparr>)"
    by (simp add: getApiClient_def w')
  from tok built w' again run_tool_keeps_client [OF memo] show ?thesis by blast
qed

theorem getApiClient_memoized_witness:
  "axios_create ''secret''
     = \<lparr> baseURL = ''https://api.hetzner.cloud/v1'', timeout = 30000,
         headers = [(''Authorization'', ''Bearer secret''), (''Content-Type'', ''application/json''),
                    (''Accept'', ''application/json'')] \<rparr>
   \<and> getApiClient \<lparr>env_HETZNER_API_TOKEN = Some ''other'', apiClient = Some (axios_create ''secret''), sent = []\<rparr>
     = (Inr (axios_create ''secret''),
        \<lparr>env_HETZNER_API_TOKEN = Some ''other'', apiClient = Some (axios_create ''secret''), sent = []\<rparr>)"
proof -
  let ?w = "\<lparr>env_HETZNER_API_TOKEN = Some ''secret'', apiClient = None, sent = []\<rparr>"
  let ?w' = "\<lparr>env_HETZNER_API_TOKEN = Some ''secret'', apiClient = Some (axios_create ''secret''), sent = []\<rparr>"
  have first: "getApiClient ?w = (Inr (axios_create ''secret''), ?w')"
    by (simp add: getApiClient_def)
  have none: "apiClient ?w = None" by simp
  note fact = getApiClient_memoized [OF none first, where t = "Some ''other''" and s = "[]"]
  from fact have built: "axios_create ''secret''
     = \<lparr> baseURL = ''https://api.hetzner.cloud/v1'', timeout = 30000,
         headers = [(''Authorization'', ''Bearer secret''), (''Content-Type'', ''application/json''),
                    (''Accept'', ''application/json'')] \<rparr>"
    by auto
  from fact have "getApiClient (?w'\<lparr>env_HETZNER_API_TOKEN := Some ''other'', sent := []\<rparr>)
     = (Inr (axios_create ''secret''), ?w'\<lparr>env_HETZNER_API_TOKEN := Some ''other'', sent := []\<rparr>)"
    by blast
  then have again: "getApiClient \<lparr>env_HETZNER_API_TOKEN = Some ''other'', apiClient = Some (axios_create ''secret''), sent = []\<rparr>
     = (Inr (axios_create ''secret''),
        \<lparr>env_HETZNER_API_TOKEN = Some ''other'', apiClient = Some (axios_create ''secret''), sent = []\<rparr>)"
    by simp
  from built again show ?thesis by (rule conjI)
qed

section \<open>The request of \<^verbatim>\<open>hetzner_create_server\<close>\<close>

text \<open>
  C9.  With \<^verbatim>\<open>ssh_keys\<close> given as the empty list the request body has no
  \<^verbatim>\<open>ssh_keys\<close> member, the request is the one built when the parameter is left out, and
  so is everything the handler does and returns.
\<close>

theorem create_server_empty_ssh_keys:
  "map_of (create_server_body (p\<lparr>csp_ssh_keys := Some []\<rparr>)) ''ssh_keys'' = None
   \<and> create_server_request (p\<lparr>csp_ssh_keys := Some []\<rparr>) = create_server_request (p\<lparr>csp_ssh_keys := None\<rparr>)
   \<and> hetzner_create_server L http w (p\<lparr>csp_ssh_keys := Some []\<rparr>)
       = hetzner_create_server L http w (p\<lparr>csp_ssh_keys := None\<rparr>)"
proof -
  have body: "create_server_body (p\<lparr>csp_ssh_keys := Some []\<rparr>) = create_server_body (p\<lparr>csp_ssh_keys := None\<rparr>)"
    by (simp add: create_server_body_def)
  have absent: "map_of (create_server_body (p\<lparr>csp_ssh_keys := Some []\<rparr>)) ''ssh_keys'' = None"
    by (simp add: create_server_body_def split: option.splits)
  have req: "create_server_request (p\<lparr>csp_ssh_keys := Some []\<rparr>) = create_server_request (p\<lparr>csp_ssh_keys := None\<rparr>)"
    by (simp add: create_server_request_def body)
  show ?thesis
    by (simp add: absent req hetzner_create_server_def create_server_try_def)
qed

section \<open>The narrative block of a server\<close>

text \<open>
  C7.  \<open>formatServer\<close> joins the lines of \<open>formatServer_lines\<close>, which come in a fixed
  order: heading, status, IPv4, IPv6, type, location, the image if there is one, creation
  time.  The labels only ever
  add one line, after all others: the lines are those of the same server without labels,
  followed, when the label object is not empty, by \<open>- **Labels**: \<close> and the entries as
  \<open>key=value\<close> joined by a comma and a space.  Without labels no line starts with
  \<open>- **Labels**: \<close>; with the one label \<open>env: prod\<close> exactly one does, and it reads
  \<open>- **Labels**: env=prod\<close>.
\<close>

theorem formatServer_labels:
  "formatServer L s = join NL (formatServer_lines L s)
   \<and> list_all2 prefix
         ([''## '', ''- **Status**: '', ''- **IPv4**: '', ''- **IPv6**: '', ''- **Type**: '',
           ''- **Location**: '']
          @ (case srv_image s of None \<Rightarrow> [] | Some img \<Rightarrow> [''- **Image**: ''])
          @ [''- **Created**: ''])
         (formatServer_lines L (s\<lparr>srv_labels := []\<rparr>))
   \<and> formatServer_lines L s
       = formatServer_lines L (s\<lparr>srv_labels := []\<rparr>)
         @ (if srv_labels s = [] then []
            else [''- **Labels**: '' @ join '', '' (map (\<lambda>(k, v). k @ ''='' @ v) (srv_labels s))])
   \<and> filter (prefix ''- **Labels**: '') (formatServer_lines L (s\<lparr>srv_labels := []\<rparr>)) = []
   \<and> filter (prefix ''- **Labels**: '') (formatServer_lines L (s\<lparr>srv_labels := [(''env'', ''prod'')]\<rparr>))
       = [''- **Labels**: env=prod'']"
proof -
  have split_off: "formatServer_lines L s
       = formatServer_lines L (s\<lparr>srv_labels := []\<rparr>)
         @ (if srv_labels s = [] then []
            else [''- **Labels**: '' @ join '', '' (map (\<lambda>(k, v). k @ ''='' @ v) (srv_labels s))])"
    by (simp add: formatServer_lines_def Let_def format_labels_def split_def split: option.splits)
  have none: "filter (prefix ''- **Labels**: '') (formatServer_lines L (s\<lparr>srv_labels := []\<rparr>)) = []"
    by (simp add: formatServer_lines_def Let_def split: option.splits)
  have one: "filter (prefix ''- **Labels**: '') (formatServer_lines L (s\<lparr>srv_labels := [(''env'', ''prod'')]\<rparr>))
       = [''- **Labels**: env=prod'']"
    by (simp add: formatServer_lines_def Let_def format_labels_def split: option.splits)
  have order: "list_all2 prefix
         ([''## '', ''- **Status**: '', ''- **IPv4**: '', ''- **IPv6**: '', ''- **Type**: '',
           ''- **Location**: '']
          @ (case srv_image s of None \<Rightarrow> [] | Some img \<Rightarrow> [''- **Image**: ''])
          @ [''- **Created**: ''])
         (formatServer_lines L (s\<lparr>srv_labels := []\<rparr>))"
    by (simp add: formatServer_lines_def Let_def split: option.splits)
  from order split_off none one show ?thesis
    by (simp only: formatServer_def simp_thms)
qed

section \<open>Empty listings\<close>

text \<open>
  C10.  When the client is available and the provider answers with an empty list,
  \<^verbatim>\<open>hetzner_list_servers\<close> and \<^verbatim>\<open>hetzner_list_ssh_keys\<close> return their guidance sentence in
  markdown mode and the text \<open>[]\<close> in JSON mode.
\<close>

theorem empty_listing_guidance:
  assumes "getApiClient w = (Inr c, w')"
    and "http_servers c (list_servers_request p) = Inr []"
    and "http_keys c (simple_request ''/ssh_keys'' GET) = Inr []"
  shows "fst (hetzner_list_servers L http_servers w p)
           = Inr (text_result (case ls_response_format p of
                                 MARKDOWN \<Rightarrow> ''No servers found. Use `hetzner_create_server` to create one.''
                               | JSON \<Rightarrow> ''[]''))
       \<and> fst (hetzner_list_ssh_keys L http_keys w fmt)
           = Inr (text_result (case fmt of
                                 MARKDOWN \<Rightarrow> ''No SSH keys found. Use `hetzner_create_ssh_key` to add one.''
                               | JSON \<Rightarrow> ''[]''))"
proof -
  have servers: "makeApiRequest http_servers w (list_servers_request p)
                  = (Inr [], w'\<lparr>sent := sent w' @ [list_servers_request p]\<rparr>)"
    using assms(1,2) by (simp add: makeApiRequest_ok)
  have keys: "makeApiRequest http_keys w (simple_request ''/ssh_keys'' GET)
                  = (Inr [], w'\<lparr>sent := sent w' @ [simple_request ''/ssh_keys'' GET]\<rparr>)"
    using assms(1,3) by (simp add: makeApiRequest_ok)
  have empty_array: "JSON_stringify (JArray []) = ''[]''"
    by (simp add: JSON_stringify_def)
  have a: "fst (hetzner_list_servers L http_servers w p)
           = Inr (text_result (case ls_response_format p of
                                 MARKDOWN \<Rightarrow> ''No servers found. Use `hetzner_create_server` to create one.''
                               | JSON \<Rightarrow> ''[]''))"
    by (simp add: hetzner_list_servers_def list_servers_try_def servers and_then_def try_catch_def
          list_servers_output_def empty_array split: ResponseFormat.splits)
  have b: "fst (hetzner_list_ssh_keys L http_keys w fmt)
           = Inr (text_result (case fmt of
                                 MARKDOWN \<Rightarrow> ''No SSH keys found. Use `hetzner_create_ssh_key` to add one.''
                               | JSON \<Rightarrow> ''[]''))"
    by (simp add: hetzner_list_ssh_keys_def list_ssh_keys_try_def keys and_then_def try_catch_def
          list_ssh_keys_output_def empty_array split: ResponseFormat.splits)
  from a b show ?thesis by (rule conjI)
qed

theorem empty_listing_guidance_witness:
  "fst (hetzner_list_servers example_locale answers_nothing configured_world
          \<lparr>label_selector = None, ls_response_format = MARKDOWN\<rparr>)
     = Inr (text_result ''No servers found. Use `hetzner_create_server` to create one.'')
   \<and> fst (hetzner_list_ssh_keys example_locale answers_nothing configured_world JSON)
     = Inr (text_result ''[]'')"
proof -
  have client: "getApiClient configured_world
                  = (Inr (axios_create ''secret''), configured_world\<lparr>apiClient := Some (axios_create ''secret'')\<rparr>)"
    by (simp add: getApiClient_def configured_world_def)
  have servers: "answers_nothing (axios_create ''secret'')
                   (list_servers_request \<lparr>label_selector = None, ls_response_format = MARKDOWN\<rparr>)
                 = (Inr [] :: thrown + HetznerServer list)"
    by (simp add: answers_nothing_def)
  have keys: "answers_nothing (axios_create ''secret'') (simple_request ''/ssh_keys'' GET)
                 = (Inr [] :: thrown + HetznerSSHKey list)"
    by (simp add: answers_nothing_def)
  from empty_listing_guidance
         [where http_servers = answers_nothing and http_keys = answers_nothing
            and p = "\<lparr>label_selector = None, ls_response_format = MARKDOWN\<rparr>"
            and fmt = JSON and L = example_locale,
          OF client servers keys]
  show ?thesis by simp
qed

section \<open>Listing images\<close>













text \<open>
  The same two calls evaluated: the markdown text in full, one group with its heading, and the
  unavailable image in neither output.
\<close>

lemma list_images_markdown_example:
  "fst (hetzner_list_images example_locale answers_two_images configured_world
          \<lparr>li_type = None, li_response_format = MARKDOWN\<rparr>)
     = Inr \<lparr> content = [TextContent (join NL
                 [''# Available Images'', [], ''## Ubuntu'', ''- **ubuntu-24.04** - Ubuntu 24.04 (x86)'', []])],
             isError = False \<rparr>"
proof -
  have U: "char_of (85 :: nat) = CHR ''U''" by code_simp
  show ?thesis
    by (simp add: hetzner_list_images_def list_images_try_def makeApiRequest_def getApiClient_def
          configured_world_def and_then_def try_catch_def answers_two_images_def
          list_images_output_def list_images_lines_def pending_image_def ubuntu_image_def
          Object_prototype_keys_def Object_entries_def flavor_lines_def image_line_def
          capitalize_def text_result_def array_index_def is_digit_def or_else_def Let_def
          toUpperCase_char_def List.map_filter_def U)
qed

section \<open>Validation of the server name\<close>

lemma name_char_listed:
  assumes "name_char c"
  shows "c \<in> set (''abcdefghijklmnopqrstuvwxyz'' @ ''ABCDEFGHIJKLMNOPQRSTUVWXYZ'' @ ''0123456789-'')"
proof -
  define n where "n = (of_char c :: nat)"
  define xs where "xs = [97..<123] @ [65..<91] @ [48..<58] @ [45::nat]"
  have c: "c = char_of n" by (simp add: n_def)
  have s: "set xs = {97..<123} \<union> ({65..<91} \<union> ({48..<58} \<union> {45}))"
    unfolding xs_def by (simp only: set_append set_upt list.set)
  from assms have "n \<in> {97..<123} \<union> ({65..<91} \<union> ({48..<58} \<union> {45}))"
    by (auto simp: name_char_def Let_def n_def)
  then have "n \<in> set xs" by (simp only: s)
  then have "char_of n \<in> set (map char_of xs)" by (simp only: set_map image_eqI)
  moreover have "map char_of xs
      = ''abcdefghijklmnopqrstuvwxyz'' @ ''ABCDEFGHIJKLMNOPQRSTUVWXYZ'' @ ''0123456789-''"
    unfolding xs_def by code_simp
  ultimately show ?thesis using c by simp
qed

text \<open>
  C6.  An input to \<^verbatim>\<open>hetzner_create_server\<close> whose name has a character that is no letter,
  digit or hyphen, or is empty, or is longer than 255 characters, fails the input schema; the
  registered tool then does not run the handler, so the process state is unchanged and no
  request has been sent.
\<close>

theorem create_server_name_rejected:
  assumes "(\<exists>ch \<in> set (in_name i).
              ch \<notin> set (''abcdefghijklmnopqrstuvwxyz'' @ ''ABCDEFGHIJKLMNOPQRSTUVWXYZ'' @ ''0123456789-''))
           \<or> in_name i = [] \<or> 255 < length (in_name i)"
  shows "create_server_inputSchema i = None
       \<and> registered_create_server L http w i = (None, w)"
proof -
  define A where "A = set (''abcdefghijklmnopqrstuvwxyz'' @ ''ABCDEFGHIJKLMNOPQRSTUVWXYZ'' @ ''0123456789-'')"
  have listed: "\<And>ch. name_char ch \<Longrightarrow> ch \<in> A"
    unfolding A_def by (rule name_char_listed)
  from assms have bad: "(\<exists>ch \<in> set (in_name i). ch \<notin> A) \<or> in_name i = [] \<or> 255 < length (in_name i)"
    unfolding A_def .
  have "\<not> name_schema (in_name i)"
  proof
    assume "name_schema (in_name i)"
    then have "\<forall>ch \<in> set (in_name i). name_char ch" "in_name i \<noteq> []" "length (in_name i) \<le> 255"
      by (simp_all add: name_schema_def name_regex_def list_all_iff)
    with bad listed show False by fastforce
  qed
  then have "create_server_inputSchema i = None"
    by (simp add: create_server_inputSchema_def split: option.splits)
  then show ?thesis
    by (simp add: registered_create_server_def)
qed

theorem create_server_name_rejected_witness:
  "registered_create_server example_locale answers_with_password configured_world
     \<lparr>in_name = ''my app'', in_server_type = ''cx22'', in_image = ''ubuntu-24.04'',
      in_location = None, in_ssh_keys = None, in_labels = None, in_start_after_create = None,
      in_response_format = None, in_unknown_keys = []\<rparr> = (None, configured_world)"
proof -
  let ?i = "\<lparr>in_name = ''my app'', in_server_type = ''cx22'', in_image = ''ubuntu-24.04'',
      in_location = None, in_ssh_keys = None, in_labels = None, in_start_after_create = None,
      in_response_format = None, in_unknown_keys = []\<rparr>"
  have "CHR '' '' \<in> set (in_name ?i)" by simp
  moreover have "CHR '' '' \<notin> set (''abcdefghijklmnopqrstuvwxyz'' @ ''ABCDEFGHIJKLMNOPQRSTUVWXYZ'' @ ''0123456789-'')"
    by simp
  ultimately have "(\<exists>ch \<in> set (in_name ?i).
              ch \<notin> set (''abcdefghijklmnopqrstuvwxyz'' @ ''ABCDEFGHIJKLMNOPQRSTUVWXYZ'' @ ''0123456789-''))
           \<or> in_name ?i = [] \<or> 255 < length (in_name ?i)"
    by blast
  from create_server_name_rejected [OF this] show ?thesis by blast
qed

lemma create_server_name_accepted_example:
  "create_server_inputSchema
     \<lparr>in_name = ''my-app'', in_server_type = ''cx22'', in_image = ''ubuntu-24.04'',
      in_location = None, in_ssh_keys = None, in_labels = None, in_start_after_create = None,
      in_response_format = None, in_unknown_keys = []\<rparr> = Some example_create_params"
  by (simp add: create_server_inputSchema_def ResponseFormatSchema_def name_schema_def name_regex_def
        name_char_def example_create_params_def)

section \<open>The root password in the output of \<^verbatim>\<open>hetzner_create_server\<close>\<close>

lemma join_Cons: "join sep (x # xs) = x @ (if xs = [] then [] else sep @ join sep xs)"
  by (cases xs) simp_all

lemma formatServer_head: "\<exists>rest. formatServer L s = ''## '' @ rest"
  by (simp add: formatServer_def formatServer_lines_def Let_def join_Cons)

lemma password_lines_cases:
  "password_lines rp =
     (if \<exists>pw. rp = Some pw \<and> pw \<noteq> [] then [root_password_line (the rp), [], save_password_line]
      else [no_password_line])"
  by (auto simp: password_lines_def split: option.splits)

lemma line_facts:
  "save_password_line \<noteq> no_password_line"
  "root_password_line pw \<noteq> no_password_line"
  "root_password_line pw \<noteq> save_password_line"
  "save_password_line \<noteq> []" "no_password_line \<noteq> []" "root_password_line pw \<noteq> []"
  "save_password_line \<noteq> ''# Server Created''" "no_password_line \<noteq> ''# Server Created''"
  "root_password_line pw \<noteq> ''# Server Created''"
  "save_password_line \<noteq> ''The server is being provisioned. Use `hetzner_get_server` to check its status.''"
  "no_password_line \<noteq> ''The server is being provisioned. Use `hetzner_get_server` to check its status.''"
  "root_password_line pw \<noteq> ''The server is being provisioned. Use `hetzner_get_server` to check its status.''"
  "(root_password_line pw = root_password_line pw') = (pw = pw')"
  by (simp_all add: save_password_line_def no_password_line_def root_password_line_def warning_sign_def)

lemma line_not_server:
  "save_password_line \<noteq> formatServer L s" "no_password_line \<noteq> formatServer L s"
  "root_password_line pw \<noteq> formatServer L s"
  using formatServer_head [of L s]
  by (auto simp: save_password_line_def no_password_line_def root_password_line_def warning_sign_def)

text \<open>
  C2, as the code has it.  When the client is available and the provider answers the create
  request, the markdown output is built from the lines of \<open>create_server_lines\<close>, and what
  they say about the root password is decided by the \<^verbatim>\<open>root_password\<close> member of the
  answer alone: the password line and the line telling to save it are there exactly when that
  member is a non-empty string, the line saying that no root password was generated exactly
  when it is not, so always one of the two and never both.  The \<^verbatim>\<open>ssh_keys\<close> parameter
  has no part in the choice.  In JSON mode the output is the JSON text of the server and the
  \<^verbatim>\<open>root_password\<close> member, with neither sentence.
\<close>

theorem create_server_password_report:
  assumes "getApiClient w = (Inr c, w')" and "http c (create_server_request p) = Inr d"
  shows "(csp_response_format p = MARKDOWN \<longrightarrow>
            fst (hetzner_create_server L http w p)
              = Inr (text_result (join NL (create_server_lines L (csr_server d) (csr_root_password d)))))
       \<and> (save_password_line \<in> set (create_server_lines L (csr_server d) (csr_root_password d))
            \<longleftrightarrow> (\<exists>pw. csr_root_password d = Some pw \<and> pw \<noteq> []))
       \<and> (\<forall>pw. root_password_line pw \<in> set (create_server_lines L (csr_server d) (csr_root_password d))
            \<longleftrightarrow> (csr_root_password d = Some pw \<and> pw \<noteq> []))
       \<and> (no_password_line \<in> set (create_server_lines L (csr_server d) (csr_root_password d))
            \<longleftrightarrow> \<not> (\<exists>pw. csr_root_password d = Some pw \<and> pw \<noteq> []))
       \<and> (csp_response_format p = JSON \<longrightarrow>
            fst (hetzner_create_server L http w p)
              = Inr (text_result (JSON_stringify (JObject
                       [(''server'', srv_raw (csr_server d)),
                        (''root_password'', json_opt JString (csr_root_password d))]))))"
proof -
  have req: "makeApiRequest http w (create_server_request p)
               = (Inr d, w'\<lparr>sent := sent w' @ [create_server_request p]\<rparr>)"
    using assms by (simp add: makeApiRequest_ok)
  have out: "fst (hetzner_create_server L http w p) = Inr (create_server_output L (csp_response_format p) d)"
    by (simp add: hetzner_create_server_def create_server_try_def req and_then_def try_catch_def)
  have md: "csp_response_format p = MARKDOWN \<longrightarrow>
            fst (hetzner_create_server L http w p)
              = Inr (text_result (join NL (create_server_lines L (csr_server d) (csr_root_password d))))"
    by (simp add: out create_server_output_def)
  have js: "csp_response_format p = JSON \<longrightarrow>
            fst (hetzner_create_server L http w p)
              = Inr (text_result (JSON_stringify (JObject
                       [(''server'', srv_raw (csr_server d)),
                        (''root_password'', json_opt JString (csr_root_password d))])))"
    by (simp add: out create_server_output_def)
  have save: "save_password_line \<in> set (create_server_lines L (csr_server d) (csr_root_password d))
            \<longleftrightarrow> (\<exists>pw. csr_root_password d = Some pw \<and> pw \<noteq> [])"
    by (simp add: create_server_lines_def password_lines_cases line_facts line_not_server)
  have root: "\<forall>pw. root_password_line pw \<in> set (create_server_lines L (csr_server d) (csr_root_password d))
            \<longleftrightarrow> (csr_root_password d = Some pw \<and> pw \<noteq> [])"
    by (auto simp: create_server_lines_def password_lines_cases line_facts line_not_server)
  have none: "no_password_line \<in> set (create_server_lines L (csr_server d) (csr_root_password d))
            \<longleftrightarrow> \<not> (\<exists>pw. csr_root_password d = Some pw \<and> pw \<noteq> [])"
    using line_facts(1,2) [symmetric]
    by (simp add: create_server_lines_def password_lines_cases line_facts line_not_server)
  from md save root none js show ?thesis by blast
qed

theorem create_server_password_report_witness:
  "fst (hetzner_create_server example_locale answers_with_password configured_world example_create_params)
     = Inr (text_result (join NL (create_server_lines example_locale example_server (Some ''s3cret''))))
   \<and> root_password_line ''s3cret'' \<in> set (create_server_lines example_locale example_server (Some ''s3cret''))
   \<and> save_password_line \<in> set (create_server_lines example_locale example_server (Some ''s3cret''))
   \<and> no_password_line \<notin> set (create_server_lines example_locale example_server (Some ''s3cret''))"
proof -
  have client: "getApiClient configured_world
                  = (Inr (axios_create ''secret''), configured_world\<lparr>apiClient := Some (axios_create ''secret'')\<rparr>)"
    by (simp add: getApiClient_def configured_world_def)
  have answer: "answers_with_password (axios_create ''secret'') (create_server_request example_create_params)
                  = Inr \<lparr>csr_server = example_server, csr_action = example_action,
                         csr_root_password = Some ''s3cret''\<rparr>"
    by (simp add: answers_with_password_def)
  have md: "csp_response_format example_create_params = MARKDOWN"
    by (simp add: example_create_params_def)
  from create_server_password_report
         [where http = answers_with_password and p = example_create_params and L = example_locale,
          OF client answer] md
  show ?thesis by simp
qed

text \<open>
  The claim as it was stated ties the report to the supplied keys.  Here no keys are supplied,
  the provider's answer carries no root password, and the output says that SSH key authentication
  is configured and reports no password.
\<close>

theorem create_server_password_counterexample:
  "csp_ssh_keys example_create_params = None
   \<and> save_password_line \<notin> set (create_server_lines example_locale example_server None)
   \<and> no_password_line \<in> set (create_server_lines example_locale example_server None)
   \<and> fst (hetzner_create_server example_locale answers_without_password configured_world example_create_params)
     = Inr (text_result (join NL
         [''# Server Created'',
          [],
          ''## my-app (ID: 42)'',
          ''- **Status**: initializing'',
          ''- **IPv4**: 203.0.113.7'',
          ''- **IPv6**: N/A'',
          ''- **Type**: cx22 (2 cores, 4GB RAM, 40GB disk)'',
          ''- **Location**: Falkenstein, DE (fsn1-dc14)'',
          ''- **Created**: 2024-05-01T10:00:00+00:00'',
          [],
          ''SSH key authentication is configured. No root password was generated.'',
          [],
          ''The server is being provisioned. Use `hetzner_get_server` to check its status.'']))"
  by (simp add: example_create_params_def hetzner_create_server_def create_server_try_def
        makeApiRequest_def getApiClient_def configured_world_def answers_without_password_def
        and_then_def try_catch_def create_server_output_def create_server_lines_def
        password_lines_def no_password_line_def save_password_line_def warning_sign_def formatServer_def formatServer_lines_def
        example_server_def example_locale_def or_else_def show_int_def show_magnitude_def show_nat.simps
        text_result_def
        digit_char_def NL_def)

section \<open>Errors at the operation boundary\<close>











section \<open>The missing token\<close>

text \<open>
  C4, as the code has it.  \<open>getApiClient\<close> is called inside \<^verbatim>\<open>makeApiRequest\<close>, which
  every handler calls inside its \<^verbatim>\<open>try\<close> block.  So when no client is stored and the
  token is missing (or empty), the error raised by \<open>getApiClient\<close> is caught like any other:
  every tool call returns the error result with the text
  \<open>Error: HETZNER_API_TOKEN environment variable is required\<close>, and leaves the process state
  as it was (no request sent, no client stored).
\<close>

theorem missing_token_is_reported:
  assumes "apiClient w = None"
    and "env_HETZNER_API_TOKEN w = None \<or> env_HETZNER_API_TOKEN w = Some []"
  shows "getApiClient w = (Inl (PlainError (JsStr ''HETZNER_API_TOKEN environment variable is required'')), w)
       \<and> run_tool L N w call
           = (Inr \<lparr>content = [TextContent ''Error: HETZNER_API_TOKEN environment variable is required''],
                   isError = True\<rparr>, w)"
proof -
  from assms have thrown: "getApiClient w
      = (Inl (PlainError (JsStr ''HETZNER_API_TOKEN environment variable is required'')), w)"
    by (auto simp: getApiClient_def)
  have "handleApiError (PlainError (JsStr ''HETZNER_API_TOKEN environment variable is required''))
          = Inr ''Error: HETZNER_API_TOKEN environment variable is required''"
    by (simp add: handleApiError_def template_string)
  with tool_try_no_client [OF thrown]
  have "run_tool L N w call
          = (Inr (error_result ''Error: HETZNER_API_TOKEN environment variable is required''), w)"
    by (simp add: run_tool_try_catch try_catch_def)
  with thrown show ?thesis
    by (simp add: error_result_def)
qed

theorem missing_token_is_reported_witness:
  "run_tool example_locale unreachable_network unconfigured_world (DeleteServer 7)
     = (Inr \<lparr>content = [TextContent ''Error: HETZNER_API_TOKEN environment variable is required''],
             isError = True\<rparr>, unconfigured_world)"
proof -
  have a: "apiClient unconfigured_world = None" by (simp add: unconfigured_world_def)
  have b: "env_HETZNER_API_TOKEN unconfigured_world = None \<or> env_HETZNER_API_TOKEN unconfigured_world = Some []"
    by (simp add: unconfigured_world_def)
  from missing_token_is_reported [OF a b] show ?thesis by blast
qed

text \<open>
  The claim as it was stated says the error passes the handler uncaught.  Without a token
  \<^verbatim>\<open>hetzner_list_servers\<close> does not settle with the thrown value; it returns the normalized
  error result.
\<close>

theorem missing_token_counterexample:
  "getApiClient unconfigured_world
     = (Inl (PlainError (JsStr ''HETZNER_API_TOKEN environment variable is required'')), unconfigured_world)
   \<and> fst (hetzner_list_servers example_locale answers_nothing unconfigured_world
            \<lparr>label_selector = None, ls_response_format = MARKDOWN\<rparr>)
     \<noteq> Inl (PlainError (JsStr ''HETZNER_API_TOKEN environment variable is required''))
   \<and> hetzner_list_servers example_locale answers_nothing unconfigured_world
         \<lparr>label_selector = None, ls_response_format = MARKDOWN\<rparr>
     = (Inr \<lparr>content = [TextContent ''Error: HETZNER_API_TOKEN environment variable is required''],
             isError = True\<rparr>, unconfigured_world)"
  by (simp add: getApiClient_def unconfigured_world_def hetzner_list_servers_def list_servers_try_def
        makeApiRequest_def and_then_def try_catch_def error_result_def handleApiError_def template_string)

end
